theory Spec2Isabelle
  imports Complex_Main "HOL-Library.Monad_Syntax"
begin

section \<open>Python strings\<close>

text \<open>
  A Python \<open>str\<close> is a sequence of code points. It is modelled as a \<open>string\<close> whose
  characters are read as the code points U+0000 to U+00FF, so \<open>length\<close> counts code
  points and the accented letters of the Portuguese literals of the source are single
  characters (\<open>CHR 0xE7\<close> is c-cedilla). On this range \<open>\d\<close> of the \<open>re\<close> module
  matches the ten ASCII digits only, \<open>\s\<close> and \<open>str.strip\<close> use the white space
  characters listed in \<open>is_space\<close>, and \<open>str.lower\<close> maps A-Z and the upper case
  letters U+00C0 to U+00DE (without the multiplication sign U+00D7) 32 code points up.
\<close>

definition is_digit :: "char \<Rightarrow> bool" where
  "is_digit c = (c \<in> set ''0123456789'')"

definition is_space :: "char \<Rightarrow> bool" where
  "is_space c = (c \<in> set [CHR 0x09, CHR 0x0A, CHR 0x0B, CHR 0x0C, CHR 0x0D,
      CHR 0x1C, CHR 0x1D, CHR 0x1E, CHR 0x1F, CHR 0x20, CHR 0x85, CHR 0xA0])"

definition upper_letters :: string where
  "upper_letters = ''ABCDEFGHIJKLMNOPQRSTUVWXYZ'' @
     [CHR 0xC0, CHR 0xC1, CHR 0xC2, CHR 0xC3, CHR 0xC4, CHR 0xC5, CHR 0xC6, CHR 0xC7,
      CHR 0xC8, CHR 0xC9, CHR 0xCA, CHR 0xCB, CHR 0xCC, CHR 0xCD, CHR 0xCE, CHR 0xCF,
      CHR 0xD0, CHR 0xD1, CHR 0xD2, CHR 0xD3, CHR 0xD4, CHR 0xD5, CHR 0xD6,
      CHR 0xD8, CHR 0xD9, CHR 0xDA, CHR 0xDB, CHR 0xDC, CHR 0xDD, CHR 0xDE]"

definition lower_letters :: string where
  "lower_letters = ''abcdefghijklmnopqrstuvwxyz'' @
     [CHR 0xE0, CHR 0xE1, CHR 0xE2, CHR 0xE3, CHR 0xE4, CHR 0xE5, CHR 0xE6, CHR 0xE7,
      CHR 0xE8, CHR 0xE9, CHR 0xEA, CHR 0xEB, CHR 0xEC, CHR 0xED, CHR 0xEE, CHR 0xEF,
      CHR 0xF0, CHR 0xF1, CHR 0xF2, CHR 0xF3, CHR 0xF4, CHR 0xF5, CHR 0xF6,
      CHR 0xF8, CHR 0xF9, CHR 0xFA, CHR 0xFB, CHR 0xFC, CHR 0xFD, CHR 0xFE]"

definition lower_char :: "char \<Rightarrow> char" where
  "lower_char c = (case map_of (zip upper_letters lower_letters) c of Some l \<Rightarrow> l | None \<Rightarrow> c)"

text \<open>\<open>s.lower()\<close>\<close>

definition lower :: "string \<Rightarrow> string" where
  "lower s = map lower_char s"

text \<open>\<open>s.strip()\<close>\<close>

definition strip :: "string \<Rightarrow> string" where
  "strip s = rev (dropWhile is_space (rev (dropWhile is_space s)))"

fun is_prefix :: "string \<Rightarrow> string \<Rightarrow> bool" where
  "is_prefix [] s = True"
| "is_prefix (p # ps) [] = False"
| "is_prefix (p # ps) (c # cs) = (p = c \<and> is_prefix ps cs)"

text \<open>\<open>p in s\<close> on two strings: \<open>p\<close> occurs in \<open>s\<close> as a contiguous run.\<close>

fun contains :: "string \<Rightarrow> string \<Rightarrow> bool" where
  "contains p [] = (p = [])"
| "contains p (c # cs) = (is_prefix p (c # cs) \<or> contains p cs)"

text \<open>\<open>int(s)\<close> on a run of decimal digits, as \<open>\d+\<close> captures it.\<close>

definition digit_value :: "char \<Rightarrow> int" where
  "digit_value c = int (length (takeWhile (\<lambda>d. d \<noteq> c) ''0123456789''))"

definition int_of_digits :: "string \<Rightarrow> int" where
  "int_of_digits ds = foldl (\<lambda>a c. 10 * a + digit_value c) 0 ds"

section \<open>Regular expressions as \<open>re.search\<close> runs them\<close>

text \<open>
  The fragment of the \<open>re\<close> syntax that the two patterns of \<open>format_export_payload\<close>
  use. \<open>rmatch r s g k\<close> matches \<open>r\<close> at the start of \<open>s\<close> by backtracking, with the
  alternatives tried in the order of the \<open>re\<close> module (the left branch of \<open>|\<close> first,
  \<open>?\<close> and \<open>*\<close> greedy), \<open>g\<close> the text of group 1 so far and \<open>k\<close> what remains to be
  matched after \<open>r\<close>. \<open>None\<close> is "no match".
\<close>

datatype regex =
    Lit string
  | Class string
  | Digit
  | Space
  | Seq regex regex
  | Alt regex regex
  | Opt regex
  | Star regex
  | Group regex

fun rmatch :: "regex \<Rightarrow> string \<Rightarrow> string option \<Rightarrow>
    (string \<Rightarrow> string option \<Rightarrow> 'r option) \<Rightarrow> 'r option" where
  "rmatch (Lit p) s g k = (if take (length p) s = p then k (drop (length p) s) g else None)"
| "rmatch (Class cs) s g k =
     (case s of [] \<Rightarrow> None | c # t \<Rightarrow> if c \<in> set cs then k t g else None)"
| "rmatch Digit s g k = (case s of [] \<Rightarrow> None | c # t \<Rightarrow> if is_digit c then k t g else None)"
| "rmatch Space s g k = (case s of [] \<Rightarrow> None | c # t \<Rightarrow> if is_space c then k t g else None)"
| "rmatch (Seq a b) s g k = rmatch a s g (\<lambda>s' g'. rmatch b s' g' k)"
| "rmatch (Alt a b) s g k =
     (case rmatch a s g k of Some r \<Rightarrow> Some r | None \<Rightarrow> rmatch b s g k)"
| "rmatch (Opt a) s g k = (case rmatch a s g k of Some r \<Rightarrow> Some r | None \<Rightarrow> k s g)"
| "rmatch (Star a) s g k =
     (case rmatch a s g
             (\<lambda>s' g'. if length s' < length s then rmatch (Star a) s' g' k else None)
      of Some r \<Rightarrow> Some r | None \<Rightarrow> k s g)"
| "rmatch (Group a) s g k =
     rmatch a s g (\<lambda>s' g'. k s' (Some (take (length s - length s') s)))"

text \<open>\<open>a+\<close> is \<open>aa*\<close>.\<close>

definition Plus :: "regex \<Rightarrow> regex" where
  "Plus a = Seq a (Star a)"

text \<open>
  \<open>re.search(r, s)\<close>: the match at the leftmost start position that has one. The
  result is \<open>None\<close> for no match and \<open>Some g\<close> with the text \<open>g\<close> of group 1 otherwise.
\<close>

fun re_search :: "regex \<Rightarrow> string \<Rightarrow> string option option" where
  "re_search r [] = rmatch r [] None (\<lambda>s g. Some g)"
| "re_search r (c # t) =
     (case rmatch r (c # t) None (\<lambda>s g. Some g) of
        Some g \<Rightarrow> Some g
      | None \<Rightarrow> re_search r t)"

section \<open>Score extraction and decision mapping (\<open>format_export_payload\<close>)\<close>

record payload =
  user_id :: int
  description :: string
  analysis_type :: string
  conclusion :: string
  priority :: string
  automatic_pipeline :: bool
  offense_group :: string
  offense_name :: string
  related_analyses :: "string list"

text \<open>\<open>re.sub(r'[#\*\_]', '', description)\<close>\<close>

definition sanitize :: "string \<Rightarrow> string" where
  "sanitize d = filter (\<lambda>c. c \<notin> set ''#*_'') d"

definition error_indicators :: "string list" where
  "error_indicators =
    [''N'' @ [CHR 0xE3] @ ''o consigo tankar este caso'',
     ''An error occurred'',
     ''muitas transa'' @ [CHR 0xE7, CHR 0xF5] @ ''es'',
     ''context_length_exceeded'',
     ''token limit'',
     ''chame um analista humano'']"

definition has_error :: "string \<Rightarrow> bool" where
  "has_error clean_description =
     list_ex (\<lambda>indicator. contains (lower indicator) (lower clean_description)) error_indicators"

text \<open>
  \<open>(?:[Rr]isco\s+(?:de\s+[Ll]avagem\s+(?:de\s+)?[Dd]inheiro)?|[Cc]lassificacao\s+(?:de\s+)?[Rr]isco):?\s*(\d+)(?:/|\s*de\s*)10\<close>
  (with c-cedilla and a-tilde in the second alternative).
\<close>

definition risk_score_pattern :: regex where
  "risk_score_pattern =
    Seq (Alt
          (Seq (Class ''Rr'') (Seq (Lit ''isco'') (Seq (Plus Space)
            (Opt (Seq (Lit ''de'') (Seq (Plus Space) (Seq (Class ''Ll'') (Seq (Lit ''avagem'')
              (Seq (Plus Space) (Seq (Opt (Seq (Lit ''de'') (Plus Space)))
                (Seq (Class ''Dd'') (Lit ''inheiro''))))))))))))
          (Seq (Class ''Cc'') (Seq (Lit (''lassifica'' @ [CHR 0xE7, CHR 0xE3] @ ''o''))
            (Seq (Plus Space) (Seq (Opt (Seq (Lit ''de'') (Plus Space)))
              (Seq (Class ''Rr'') (Lit ''isco'')))))))
    (Seq (Opt (Lit '':''))
    (Seq (Star Space)
    (Seq (Group (Plus Digit))
    (Seq (Alt (Lit ''/'') (Seq (Star Space) (Seq (Lit ''de'') (Star Space))))
         (Lit ''10'')))))"

text \<open>\<open>[Ss]core:?\s*(\d+)(?:/|\s*de\s*)10\<close>\<close>

definition alt_score_pattern :: regex where
  "alt_score_pattern =
    Seq (Class ''Ss'') (Seq (Lit ''core'')
    (Seq (Opt (Lit '':''))
    (Seq (Star Space)
    (Seq (Group (Plus Digit))
    (Seq (Alt (Lit ''/'') (Seq (Star Space) (Seq (Lit ''de'') (Star Space))))
         (Lit ''10''))))))"

text \<open>\<open>m.group(1)\<close> of a match; both patterns always set group 1.\<close>

definition group1 :: "string option \<Rightarrow> string" where
  "group1 g = (case g of Some t \<Rightarrow> t | None \<Rightarrow> [])"

text \<open>The score that the non-error branch extracts: 0 when neither pattern matches.\<close>

definition extract_risk_score :: "string \<Rightarrow> int" where
  "extract_risk_score clean_description =
     (case re_search risk_score_pattern clean_description of
        Some g \<Rightarrow> int_of_digits (group1 g)
      | None \<Rightarrow>
         (case re_search alt_score_pattern clean_description of
            Some g \<Rightarrow> int_of_digits (group1 g)
          | None \<Rightarrow> 0))"

definition medium_note :: string where
  "medium_note = [CHR 0x0A, CHR 0x0A] @ ''OBS: Caso de m'' @ [CHR 0xE9] @
     ''dio risco que requer monitoramento cont'' @ [CHR 0xED] @ ''nuo.''"

definition medium_high_note :: string where
  "medium_high_note = [CHR 0x0A, CHR 0x0A] @ ''OBS: Caso de risco m'' @ [CHR 0xE9] @
     ''dio-alto que requer valida'' @ [CHR 0xE7, CHR 0xE3] @ ''o do neg'' @ [CHR 0xF3] @
     ''cio, sem necessidade de bloqueio tempor'' @ [CHR 0xE1] @ ''rio.''"

text \<open>
  The \<open>if risk_score <= 5 ... elif ... else\<close> chain: the conclusion, the priority and
  the description with its note.
\<close>

definition score_decision :: "int \<Rightarrow> string \<Rightarrow> string \<times> string \<times> string" where
  "score_decision risk_score clean_description =
     (if risk_score \<le> 5 then (''normal'', ''high'', clean_description)
      else if risk_score \<le> 6 then
        (''normal'', ''high'',
         if \<not> contains (''Caso de m'' @ [CHR 0xE9] @ ''dio risco'') clean_description
         then clean_description @ medium_note else clean_description)
      else if risk_score \<le> 8 then
        (''suspicious'', ''mid'',
         if \<not> contains (''Caso de risco m'' @ [CHR 0xE9] @ ''dio-alto'') clean_description
         then clean_description @ medium_high_note else clean_description)
      else if risk_score \<le> 9 then (''suspicious'', ''high'', clean_description)
      else (''offense'', ''high'', clean_description))"

text \<open>The override on \<open>normalizar o caso\<close>, tested on the description with its note.\<close>

definition normalize_override :: "string \<Rightarrow> string \<Rightarrow> string" where
  "normalize_override clean_description concl =
     (if contains ''normalizar o caso'' (lower clean_description) \<and> concl \<noteq> ''offense''
      then ''normal'' else concl)"

text \<open>The dictionary literal that the function returns.\<close>

definition make_payload :: "int \<Rightarrow> string \<Rightarrow> string \<Rightarrow> string \<Rightarrow> payload" where
  "make_payload uid clean_description concl prio =
     \<lparr>user_id = uid, description = clean_description, analysis_type = ''manual'',
      conclusion = concl, priority = prio, automatic_pipeline = True,
      offense_group = ''illegal_activity'', offense_name = ''money_laundering'',
      related_analyses = []\<rparr>"

definition format_export_payload :: "int \<Rightarrow> string \<Rightarrow> bool \<Rightarrow> payload" where
  "format_export_payload uid raw_description business_validation =
     (let clean_description = sanitize raw_description in
      if has_error clean_description then make_payload uid clean_description [] ''high''
      else
        (case score_decision (extract_risk_score clean_description) clean_description of
           (concl, prio, noted_description) \<Rightarrow>
             make_payload uid noted_description
               (normalize_override noted_description concl) prio))"

text \<open>
  The table of the specification (section 4.5, step 4), following its words: the score
  ranges with their conclusion and priority, and 0 for a score that was not found.
\<close>

definition spec_decision_table :: "int \<Rightarrow> string \<times> string" where
  "spec_decision_table s =
     (if 1 \<le> s \<and> s \<le> 5 then (''normal'', ''high'')
      else if s = 6 then (''normal'', ''high'')
      else if 7 \<le> s \<and> s \<le> 8 then (''suspicious'', ''mid'')
      else if s = 9 then (''suspicious'', ''high'')
      else if s = 10 then (''offense'', ''high'')
      else (''normal'', ''high''))"

section \<open>Python values\<close>

text \<open>
  The values that the JSON responses of the lookup service and the rows of the warehouse
  hold: \<open>None\<close>, booleans, numbers, strings, lists and dictionaries. A number is a
  finite \<open>int\<close> or \<open>float\<close>, compared by its mathematical value as Python compares
  them (\<open>100 == 100.0\<close>). A dictionary is the list of its items in insertion order.
  An operation that raises returns \<open>None\<close>: every handler of the source is an
  \<open>except Exception\<close>, which does not look at the kind of exception.
\<close>

datatype pyval =
    PNone
  | PBool bool
  | PNum rat
  | PStr string
  | PList "pyval list"
  | PDict "(string \<times> pyval) list"

type_synonym dict = "(string \<times> pyval) list"

text \<open>\<open>bool(v)\<close>, the test of \<open>if v:\<close>\<close>

fun truthy :: "pyval \<Rightarrow> bool" where
  "truthy PNone = False"
| "truthy (PBool b) = b"
| "truthy (PNum r) = (r \<noteq> 0)"
| "truthy (PStr s) = (s \<noteq> [])"
| "truthy (PList l) = (l \<noteq> [])"
| "truthy (PDict d) = (d \<noteq> [])"

text \<open>\<open>d.get(k, default)\<close> on a dictionary\<close>

definition dict_get :: "dict \<Rightarrow> string \<Rightarrow> pyval \<Rightarrow> pyval" where
  "dict_get d k dflt = (case map_of d k of Some v \<Rightarrow> v | None \<Rightarrow> dflt)"

text \<open>\<open>v.get(k, default)\<close> on any value: AttributeError unless \<open>v\<close> is a dictionary\<close>

fun py_get :: "pyval \<Rightarrow> string \<Rightarrow> pyval \<Rightarrow> pyval option" where
  "py_get (PDict d) k dflt = Some (dict_get d k dflt)"
| "py_get PNone k dflt = None"
| "py_get (PBool b) k dflt = None"
| "py_get (PNum r) k dflt = None"
| "py_get (PStr s) k dflt = None"
| "py_get (PList l) k dflt = None"

text \<open>\<open>k in v\<close> for a string \<open>k\<close>: TypeError on \<open>None\<close>, booleans and numbers\<close>

fun py_in :: "string \<Rightarrow> pyval \<Rightarrow> bool option" where
  "py_in k (PDict d) = Some (map_of d k \<noteq> None)"
| "py_in k (PList l) = Some (PStr k \<in> set l)"
| "py_in k (PStr s) = Some (contains k s)"
| "py_in k PNone = None"
| "py_in k (PBool b) = None"
| "py_in k (PNum r) = None"

text \<open>\<open>len(v)\<close>\<close>

fun py_len :: "pyval \<Rightarrow> nat option" where
  "py_len (PStr s) = Some (length s)"
| "py_len (PList l) = Some (length l)"
| "py_len (PDict d) = Some (length d)"
| "py_len PNone = None"
| "py_len (PBool b) = None"
| "py_len (PNum r) = None"

text \<open>
  \<open>v[0]\<close>: IndexError on an empty sequence, KeyError on a dictionary (its keys are
  strings), TypeError otherwise.
\<close>

fun py_first :: "pyval \<Rightarrow> pyval option" where
  "py_first (PList l) = (case l of [] \<Rightarrow> None | x # xs \<Rightarrow> Some x)"
| "py_first (PStr s) = (case s of [] \<Rightarrow> None | c # cs \<Rightarrow> Some (PStr [c]))"
| "py_first (PDict d) = None"
| "py_first PNone = None"
| "py_first (PBool b) = None"
| "py_first (PNum r) = None"

text \<open>\<open>v[:n]\<close>: a dictionary cannot be sliced\<close>

fun py_slice :: "nat \<Rightarrow> pyval \<Rightarrow> pyval option" where
  "py_slice n (PList l) = Some (PList (take n l))"
| "py_slice n (PStr s) = Some (PStr (take n s))"
| "py_slice n (PDict d) = None"
| "py_slice n PNone = None"
| "py_slice n (PBool b) = None"
| "py_slice n (PNum r) = None"

text \<open>The items that \<open>for x in v\<close> runs through\<close>

fun py_iter :: "pyval \<Rightarrow> pyval list option" where
  "py_iter (PList l) = Some l"
| "py_iter (PStr s) = Some (map (\<lambda>c. PStr [c]) s)"
| "py_iter (PDict d) = Some (map (\<lambda>kv. PStr (fst kv)) d)"
| "py_iter PNone = None"
| "py_iter (PBool b) = None"
| "py_iter (PNum r) = None"

text \<open>A loop whose body may raise: the results in order, or the exception.\<close>

definition for_each :: "('a \<Rightarrow> 'b option) \<Rightarrow> 'a list \<Rightarrow> 'b list option" where
  "for_each body xs = those (map body xs)"

section \<open>The lookup service (\<open>bdc_utils\<close>)\<close>

text \<open>
  What \<open>requests.post\<close>, \<open>raise_for_status\<close> and \<open>response.json()\<close> end in: a
  \<open>RequestException\<close> (connection failure, error status, and for the current
  \<open>requests\<close> a body that is not JSON), the decoded body, or another exception.
\<close>

datatype http_outcome = RequestException | Returned pyval | OtherException

text \<open>
  What the functions take from outside: the flag \<open>BDC_AVAILABLE\<close> of the module, the
  lookup service keyed by the document sent to it, and the two built-in conversions
  whose results on arbitrary text are not modelled here: \<open>str(v)\<close> of a value that is
  not a string and \<open>float(s)\<close> of a string (\<open>None\<close> for ValueError).
\<close>

record env =
  bdc_available :: bool
  http_post :: "string \<Rightarrow> http_outcome"
  str_of_value :: "pyval \<Rightarrow> string"
  float_of_str :: "string \<Rightarrow> rat option"

text \<open>\<open>re.sub(r'\D', '', document)\<close>\<close>

definition sanitize_document :: "string \<Rightarrow> string" where
  "sanitize_document doc = filter is_digit doc"

text \<open>\<open>fetch_bdc_data\<close>: a \<open>RequestException\<close> is caught and gives \<open>None\<close>.\<close>

definition fetch_bdc_data :: "env \<Rightarrow> string \<Rightarrow> pyval option" where
  "fetch_bdc_data e document_number =
     (case http_post e document_number of
        RequestException \<Rightarrow> Some PNone
      | Returned body \<Rightarrow> Some body
      | OtherException \<Rightarrow> None)"

text \<open>
  \<open>analyze_document\<close>. The block under \<open>if result:\<close> only prints, but the
  expressions it prints are evaluated and raise on a response of another shape.
\<close>

definition analyze_document :: "env \<Rightarrow> string \<Rightarrow> pyval option" where
  "analyze_document e doc = do {
     let sanitized_doc = sanitize_document doc;
     result \<leftarrow> fetch_bdc_data e sanitized_doc;
     _ \<leftarrow> (if truthy result then do {
            _ \<leftarrow> py_get result ''Result'' (PList []);
            res \<leftarrow> py_get result ''Result'' PNone;
            if truthy res then do {
              person_data \<leftarrow> py_first res;
              processes_data \<leftarrow> py_get person_data ''Processes'' (PDict []);
              lawsuits \<leftarrow> (if truthy processes_data
                           then py_get processes_data ''Lawsuits'' (PList [])
                           else Some (PList []));
              kyc_data \<leftarrow> py_get person_data ''KycData'' (PDict []);
              _ \<leftarrow> (if truthy kyc_data then do {
                     pep \<leftarrow> py_get kyc_data ''PEPHistory'' (PList []);
                     _ \<leftarrow> py_len pep;
                     sh \<leftarrow> py_get kyc_data ''SanctionsHistory'' (PList []);
                     _ \<leftarrow> py_len sh;
                     _ \<leftarrow> py_get kyc_data ''IsCurrentlyPEP'' (PBool False);
                     _ \<leftarrow> py_get kyc_data ''IsCurrentlySanctioned'' (PBool False);
                     Some ()
                   } else Some ());
              _ \<leftarrow> py_len lawsuits;
              Some ()
            } else Some ()
          } else Some ());
     if \<not> truthy result then Some (PDict [(''Result'', PList [])]) else Some result
   }"

section \<open>The counterparty risk analyzer (\<open>analyze_counterparties\<close>)\<close>

record analysis =
  document :: pyval
  name :: pyval
  processes :: "dict list"
  sanctions :: "dict list"
  has_processes :: bool
  has_sanctions :: bool
  risk_level :: string

record profile = analysis +
  transaction_amount :: pyval
  transaction_date :: pyval
  transaction_type :: string
  party_name :: pyval

record summary_counts =
  total_counterparties_analyzed :: nat
  counterparties_with_processes :: nat
  counterparties_with_sanctions :: nat
  high_risk_counterparties :: nat

record counterparty_analysis =
  top_cash_in_analysis :: "profile list"
  top_cash_out_analysis :: "profile list"
  analysis_enabled :: bool
  summary :: summary_counts

definition BAIXO :: string where "BAIXO = ''BAIXO''"
definition BAIXO_MEDIO :: string where "BAIXO_MEDIO = ''BAIXO-M'' @ [CHR 0xC9] @ ''DIO''"
definition MEDIO :: string where "MEDIO = ''M'' @ [CHR 0xC9] @ ''DIO''"
definition ALTO :: string where "ALTO = ''ALTO''"

text \<open>The entry that the loop over \<open>processes_to_add\<close> appends for one lawsuit.\<close>

definition process_info :: "pyval \<Rightarrow> dict option" where
  "process_info process = do {
     number \<leftarrow> py_get process ''Number'' (PStr []);
     court \<leftarrow> py_get process ''CourtName'' (PStr []);
     subject \<leftarrow> py_get process ''MainSubject'' (PStr []);
     ptype \<leftarrow> py_get process ''Type'' (PStr []);
     court_level \<leftarrow> py_get process ''CourtLevel'' (PStr []);
     court_type \<leftarrow> py_get process ''CourtType'' (PStr []);
     district \<leftarrow> py_get process ''CourtDistrict'' (PStr []);
     Some [(''process_number'', number), (''court'', court), (''subject'', subject),
           (''type'', ptype), (''court_level'', court_level), (''court_type'', court_type),
           (''district'', district)]
   }"

text \<open>The entry appended for one item of \<open>PEPHistory\<close>.\<close>

definition pep_entry :: "pyval \<Rightarrow> dict option" where
  "pep_entry pep = do {
     descr \<leftarrow> py_get pep ''Description'' (PStr []);
     Some [(''type'', PStr ''PEP''), (''description'', descr), (''source'', PStr ''PEP Database'')]
   }"

text \<open>The dictionary appended for a sanction whose \<open>MatchRate\<close> equals 100.\<close>

definition sanction_entry :: "pyval \<Rightarrow> dict option" where
  "sanction_entry sanction = do {
     match_rate \<leftarrow> py_get sanction ''MatchRate'' (PNum 0);
     stype \<leftarrow> py_get sanction ''Type'' (PStr []);
     standardized \<leftarrow> py_get sanction ''StandardizedSanctionType'' (PStr []);
     source \<leftarrow> py_get sanction ''Source'' (PStr []);
     details \<leftarrow> py_get sanction ''Details'' PNone;
     descr \<leftarrow> (if truthy details then do {
                details' \<leftarrow> py_get sanction ''Details'' (PDict []);
                py_get details' ''WarrantDescription'' (PStr [])
              } else Some (PStr []));
     Some [(''type'', stype), (''standardized_type'', standardized), (''source'', source),
           (''description'', descr), (''match_rate'', match_rate)]
   }"

text \<open>
  The body of the loop over \<open>SanctionsHistory\<close>: what one item adds to \<open>sanctions\<close>.
  The branch of a rejected item only logs, and the two names it logs are read with
  \<open>sanction.get('Details', {}).get(...)\<close>.
\<close>

definition sanction_step :: "pyval \<Rightarrow> dict list option" where
  "sanction_step sanction = do {
     match_rate \<leftarrow> py_get sanction ''MatchRate'' (PNum 0);
     _ \<leftarrow> py_get sanction ''Type'' (PStr []);
     if match_rate = PNum 100 then do {
       entry \<leftarrow> sanction_entry sanction;
       Some [entry]
     } else do {
       _ \<leftarrow> py_get sanction ''Type'' (PStr []);
       _ \<leftarrow> py_get sanction ''Source'' (PStr []);
       details \<leftarrow> py_get sanction ''Details'' (PDict []);
       _ \<leftarrow> py_get details ''OriginalName'' (PStr []);
       details' \<leftarrow> py_get sanction ''Details'' (PDict []);
       _ \<leftarrow> py_get details' ''SanctionName'' (PStr []);
       Some []
     }
   }"

definition current_pep_entry :: dict where
  "current_pep_entry =
     [(''type'', PStr ''Current PEP''),
      (''description'', PStr ''Currently a Politically Exposed Person''),
      (''source'', PStr ''PEP Database'')]"

definition current_sanction_entry :: dict where
  "current_sanction_entry =
     [(''type'', PStr ''Current Sanction''),
      (''description'', PStr ''Currently under sanctions''),
      (''source'', PStr ''Sanctions Database'')]"

text \<open>The list \<open>sanctions\<close> built from \<open>KycData\<close>: PEP history, sanctions history, flags.\<close>

definition collect_sanctions :: "pyval \<Rightarrow> dict list option" where
  "collect_sanctions kyc_data = do {
     pep_history \<leftarrow> (if truthy kyc_data then py_get kyc_data ''PEPHistory'' (PList [])
                     else Some (PList []));
     peps \<leftarrow> (if truthy pep_history then do {
               items \<leftarrow> py_iter pep_history;
               for_each pep_entry items
             } else Some []);
     sanctions_history \<leftarrow> (if truthy kyc_data
                           then py_get kyc_data ''SanctionsHistory'' (PList [])
                           else Some (PList []));
     accepted \<leftarrow> (if truthy sanctions_history then do {
                   items \<leftarrow> py_iter sanctions_history;
                   added \<leftarrow> for_each sanction_step items;
                   Some (concat added)
                 } else Some []);
     flags \<leftarrow> (if truthy kyc_data then do {
                is_currently_pep \<leftarrow> py_get kyc_data ''IsCurrentlyPEP'' (PBool False);
                is_currently_sanctioned \<leftarrow> py_get kyc_data ''IsCurrentlySanctioned'' (PBool False);
                Some ((if truthy is_currently_pep then [current_pep_entry] else []) @
                      (if truthy is_currently_sanctioned then [current_sanction_entry] else []))
              } else Some []);
     Some (peps @ accepted @ flags)
   }"

text \<open>The lawsuits of \<open>Processes\<close>: the value tested by \<open>if processes:\<close> and the entries added.\<close>

definition collect_processes :: "pyval \<Rightarrow> (bool \<times> dict list) option" where
  "collect_processes person_data = do {
     processes_data \<leftarrow> py_get person_data ''Processes'' (PDict []);
     lawsuits \<leftarrow> (if truthy processes_data then py_get processes_data ''Lawsuits'' (PList [])
                  else Some (PList []));
     _ \<leftarrow> py_len lawsuits;
     if truthy lawsuits then do {
       processes_to_add \<leftarrow> py_slice 10 lawsuits;
       items \<leftarrow> py_iter processes_to_add;
       infos \<leftarrow> for_each process_info items;
       Some (True, infos)
     } else Some (False, [])
   }"

definition initial_analysis :: analysis where
  "initial_analysis =
     \<lparr>document = PNone, name = PNone, processes = [], sanctions = [],
      has_processes = False, has_sanctions = False, risk_level = BAIXO\<rparr>"

text \<open>The \<open>if\<close>/\<open>elif\<close> chain that sets \<open>risk_level\<close>.\<close>

definition derive_risk_level :: "bool \<Rightarrow> bool \<Rightarrow> nat \<Rightarrow> string" where
  "derive_risk_level with_sanctions with_processes n_processes =
     (if with_sanctions then ALTO
      else if with_processes \<and> n_processes > 3 then MEDIO
      else if with_processes then BAIXO_MEDIO
      else BAIXO)"

definition extract_processes_and_sanctions :: "pyval \<Rightarrow> analysis option" where
  "extract_processes_and_sanctions bdc_result =
     (if \<not> truthy bdc_result then Some initial_analysis
      else do {
        present \<leftarrow> py_in ''Result'' bdc_result;
        if \<not> present then Some initial_analysis
        else do {
          results \<leftarrow> py_get bdc_result ''Result'' (PList []);
          if \<not> truthy results then Some initial_analysis
          else do {
            person_data \<leftarrow> py_first results;
            basic_data \<leftarrow> py_get person_data ''BasicData'' (PDict []);
            doc \<leftarrow> (if truthy basic_data then py_get basic_data ''TaxIdNumber'' (PStr [])
                    else Some PNone);
            nm \<leftarrow> (if truthy basic_data then py_get basic_data ''Name'' (PStr [])
                   else Some PNone);
            procs \<leftarrow> collect_processes person_data;
            kyc_data \<leftarrow> py_get person_data ''KycData'' (PDict []);
            sancs \<leftarrow> collect_sanctions kyc_data;
            Some \<lparr>document = doc, name = nm, processes = snd procs, sanctions = sancs,
                  has_processes = fst procs, has_sanctions = (sancs \<noteq> []),
                  risk_level = derive_risk_level (sancs \<noteq> []) (fst procs) (length (snd procs))\<rparr>
          }
        }
      })"

definition possible_fields :: "string list" where
  "possible_fields =
     [''party_document_number'', ''gateway_document_number'', ''document_number'', ''cpf'',
      ''cnpj'', ''counterparty_document'', ''payer_document'', ''receiver_document'',
      ''origin_document'', ''destination_document'']"

text \<open>\<open>str(v)\<close>\<close>

definition py_str :: "env \<Rightarrow> pyval \<Rightarrow> string" where
  "py_str e v = (case v of PStr s \<Rightarrow> s | _ \<Rightarrow> str_of_value e v)"

text \<open>
  \<open>float(v)\<close>: TypeError on \<open>None\<close>, lists and dictionaries. A number is its exact
  rational value: the rounding of \<open>float\<close> to a double, its \<open>OverflowError\<close> on an
  integer beyond the doubles, and \<open>NaN\<close> are not part of this model.
\<close>

definition py_float :: "env \<Rightarrow> pyval \<Rightarrow> rat option" where
  "py_float e v =
     (case v of
        PNone \<Rightarrow> None
      | PBool b \<Rightarrow> Some (if b then 1 else 0)
      | PNum r \<Rightarrow> Some r
      | PStr s \<Rightarrow> float_of_str e s
      | PList l \<Rightarrow> None
      | PDict d \<Rightarrow> None)"

text \<open>The loop of \<open>extract_document_from_transaction\<close> over the field names.\<close>

fun first_document :: "env \<Rightarrow> dict \<Rightarrow> string list \<Rightarrow> string option" where
  "first_document e transaction [] = None"
| "first_document e transaction (field # others) =
     (case map_of transaction field of
        Some v \<Rightarrow> if truthy v then Some (strip (py_str e v))
                  else first_document e transaction others
      | None \<Rightarrow> first_document e transaction others)"

definition extract_document_from_transaction :: "env \<Rightarrow> dict \<Rightarrow> string option" where
  "extract_document_from_transaction e transaction =
     first_document e transaction possible_fields"

text \<open>The sort key \<open>float(x.get('pix_amount', 0))\<close>.\<close>

definition amount_key :: "env \<Rightarrow> dict \<Rightarrow> rat option" where
  "amount_key e x = py_float e (dict_get x ''pix_amount'' (PNum 0))"

text \<open>
  \<open>sorted(xs, key=key, reverse=True)\<close>: the keys are computed first, and an exception
  of one of them is the exception of the call; the sort is stable, so records of equal
  key keep their order.
\<close>

definition sorted_reverse :: "('a \<Rightarrow> rat option) \<Rightarrow> 'a list \<Rightarrow> 'a list option" where
  "sorted_reverse key xs = do {
     keys \<leftarrow> for_each key xs;
     Some (map snd (sort_key (\<lambda>kx. - fst kx) (zip keys xs)))
   }"

text \<open>
  The body of the \<open>try\<close> block for one transaction with its document: \<open>None\<close> when an
  exception reaches the \<open>except Exception\<close> handler.
\<close>

definition lookup_profile :: "env \<Rightarrow> string \<Rightarrow> dict \<Rightarrow> string \<Rightarrow> profile option" where
  "lookup_profile e ttype transaction doc = do {
     bdc_result \<leftarrow> analyze_document e doc;
     a \<leftarrow> extract_processes_and_sanctions bdc_result;
     Some \<lparr>document = document a, name = name a, processes = processes a,
           sanctions = sanctions a, has_processes = has_processes a,
           has_sanctions = has_sanctions a, risk_level = risk_level a,
           transaction_amount = dict_get transaction ''pix_amount'' (PNum 0),
           transaction_date = dict_get transaction ''created_at'' (PStr []),
           transaction_type = ttype,
           party_name = dict_get transaction ''party'' (PStr [])\<rparr>
   }"

text \<open>The updates of the summary after a profile was appended.\<close>

definition count_profile :: "profile \<Rightarrow> summary_counts \<Rightarrow> summary_counts" where
  "count_profile p s =
     \<lparr>total_counterparties_analyzed = total_counterparties_analyzed s + 1,
      counterparties_with_processes =
        counterparties_with_processes s + (if has_processes p then 1 else 0),
      counterparties_with_sanctions =
        counterparties_with_sanctions s + (if has_sanctions p then 1 else 0),
      high_risk_counterparties =
        high_risk_counterparties s + (if risk_level p \<in> set [ALTO, MEDIO] then 1 else 0)\<rparr>"

text \<open>
  The loop over the top transactions of one direction. The two loops of the source
  differ in the transaction type only. A transaction with no document, and one whose
  lookup raised, leave the list and the summary as they are.
\<close>

fun analyze_top :: "env \<Rightarrow> string \<Rightarrow> dict list \<Rightarrow> profile list \<times> summary_counts \<Rightarrow>
    profile list \<times> summary_counts" where
  "analyze_top e ttype [] acc = acc"
| "analyze_top e ttype (transaction # rest) acc =
     (case extract_document_from_transaction e transaction of
        None \<Rightarrow> analyze_top e ttype rest acc
      | Some doc \<Rightarrow>
          if doc = [] then analyze_top e ttype rest acc
          else
            (case lookup_profile e ttype transaction doc of
               None \<Rightarrow> analyze_top e ttype rest acc
             | Some p \<Rightarrow> analyze_top e ttype rest (fst acc @ [p], count_profile p (snd acc))))"

definition empty_summary :: summary_counts where
  "empty_summary =
     \<lparr>total_counterparties_analyzed = 0, counterparties_with_processes = 0,
      counterparties_with_sanctions = 0, high_risk_counterparties = 0\<rparr>"

definition analyze_counterparties ::
    "env \<Rightarrow> dict list \<Rightarrow> dict list \<Rightarrow> int \<Rightarrow> counterparty_analysis option" where
  "analyze_counterparties e cash_in_list cash_out_list uid =
     (if \<not> bdc_available e then
        Some \<lparr>top_cash_in_analysis = [], top_cash_out_analysis = [],
              analysis_enabled = bdc_available e, summary = empty_summary\<rparr>
      else do {
        sorted_in \<leftarrow> sorted_reverse (amount_key e) cash_in_list;
        let after_in = analyze_top e ''CASH_IN'' (take 3 sorted_in) ([], empty_summary);
        sorted_out \<leftarrow> sorted_reverse (amount_key e) cash_out_list;
        let after_out = analyze_top e ''CASH_OUT'' (take 3 sorted_out) ([], snd after_in);
        Some \<lparr>top_cash_in_analysis = fst after_in, top_cash_out_analysis = fst after_out,
              analysis_enabled = bdc_available e, summary = snd after_out\<rparr>
      })"

text \<open>
  The invariant of the summary while the two loops run: \<open>n\<close> counterparties were
  counted and no other counter exceeds \<open>n\<close>.
\<close>

definition summary_bounded :: "nat \<Rightarrow> summary_counts \<Rightarrow> bool" where
  "summary_bounded n s \<longleftrightarrow>
     total_counterparties_analyzed s = n \<and>
     counterparties_with_processes s \<le> n \<and>
     counterparties_with_sanctions s \<le> n \<and>
     high_risk_counterparties s \<le> n"


text \<open>
  The items of \<open>SanctionsHistory\<close> of the first record of a response, as the loop of
  \<open>extract_processes_and_sanctions\<close> reaches them.
\<close>

definition sanctions_history_items :: "pyval \<Rightarrow> pyval list option" where
  "sanctions_history_items bdc_result = do {
     results \<leftarrow> py_get bdc_result ''Result'' (PList []);
     person_data \<leftarrow> py_first results;
     kyc_data \<leftarrow> py_get person_data ''KycData'' (PDict []);
     sanctions_history \<leftarrow> py_get kyc_data ''SanctionsHistory'' (PList []);
     py_iter sanctions_history
   }"

subsection \<open>Sample data\<close>

text \<open>
  A response for one person with a lawsuit and two sanctions of match rates 100 and 80
  (the scenario of the specification), and a response whose \<open>Lawsuits\<close> is \<open>null\<close>.
\<close>

definition sample_response :: pyval where
  "sample_response =
     PDict [(''Result'', PList [PDict [
       (''BasicData'', PDict [(''TaxIdNumber'', PStr ''11122233344''), (''Name'', PStr ''Ana'')]),
       (''Processes'', PDict [(''Lawsuits'', PList [PDict [(''Number'', PStr ''0001'')]])]),
       (''KycData'', PDict [(''SanctionsHistory'', PList [
          PDict [(''Type'', PStr ''Arrest Warrant''), (''MatchRate'', PNum 100)],
          PDict [(''Type'', PStr ''Arrest Warrant''), (''MatchRate'', PNum 80)]])])]])]"

definition malformed_response :: pyval where
  "malformed_response =
     PDict [(''Result'', PList [PDict [(''Processes'', PDict [(''Lawsuits'', PNone)])]])]"

text \<open>
  A response with two sanctions, the first of match rate 100 and the second of match
  rate 80 with \<open>"Details": null\<close>, and a lookup service that answers it for every
  document.
\<close>

definition null_details_response :: pyval where
  "null_details_response =
     PDict [(''Result'', PList [PDict [
       (''KycData'', PDict [(''SanctionsHistory'', PList [
          PDict [(''Type'', PStr ''Arrest Warrant''), (''MatchRate'', PNum 100)],
          PDict [(''Type'', PStr ''Arrest Warrant''), (''MatchRate'', PNum 80),
                 (''Details'', PNone)]])])]])]"

definition null_details_env :: env where
  "null_details_env =
     \<lparr>bdc_available = True,
      http_post = (\<lambda>d. Returned null_details_response),
      str_of_value = (\<lambda>v. []),
      float_of_str = (\<lambda>s. None)\<rparr>"

text \<open>
  A lookup service that knows the document 11122233344, answers the malformed response
  for 22233344455, fails with a connection error for 33344455566 and has no result
  for any other document.
\<close>

definition sample_env :: env where
  "sample_env =
     \<lparr>bdc_available = True,
      http_post = (\<lambda>d. if d = ''11122233344'' then Returned sample_response
                       else if d = ''22233344455'' then Returned malformed_response
                       else if d = ''33344455566'' then RequestException
                       else Returned (PDict [(''Result'', PList [])])),
      str_of_value = (\<lambda>v. []),
      float_of_str = (\<lambda>s. None)\<rparr>"

definition sample_transaction :: "string \<Rightarrow> rat \<Rightarrow> dict" where
  "sample_transaction doc amount =
     [(''party'', PStr ''Loja''), (''party_document_number'', PStr doc),
      (''pix_amount'', PNum amount)]"

section \<open>The report builders (\<open>merchant_report\<close>, \<open>cardholder_report\<close>)\<close>

text \<open>
  The SQL statements of the two builders, each with the user id it is built with. The
  text of a statement is not interpreted: the warehouse answers a statement with rows
  or with an exception.
\<close>

datatype query =
    MerchantReport int
  | CardholderReport int
  | IssuingPaymentsData int
  | IssuingConcentration int
  | PixConcentration int
  | CardholderConcentration int
  | OffenseAnalysisData int
  | OnlineStoreData int
  | PhonecastData int
  | UserDevice int
  | LawsuitsData int
  | RiskTransactionsData int
  | BusinessRelationshipsData int
  | PrisonTransactions int
  | SanctionsHistory int
  | RiskPixTransfersData int
  | BetsPixTransfers int

text \<open>
  A \<open>DataFrame\<close> is its column names and its rows, each row a dictionary from the
  column names (\<open>df.to_dict(orient='records')\<close>). \<open>pd.DataFrame()\<close> has no column and no
  row; a frame is \<open>empty\<close> when it has no column or no row.
\<close>

record dataframe =
  columns :: "string list"
  records :: "dict list"

definition new_dataframe :: dataframe where
  "new_dataframe = \<lparr>columns = [], records = []\<rparr>"

definition df_empty :: "dataframe \<Rightarrow> bool" where
  "df_empty df = (columns df = [] \<or> records df = [])"

text \<open>
  The warehouse client and the two numeric operations of pandas that the builders use
  are taken from outside: the frame of a statement (\<open>None\<close> for an exception of the
  client), the rounding of one cell to two decimals, and the sum of the cells of one
  column (\<open>None\<close> when pandas cannot add them).
\<close>

record warehouse =
  run_query :: "query \<Rightarrow> dataframe option"
  round_cell :: "pyval \<Rightarrow> pyval"
  sum_cells :: "pyval list \<Rightarrow> rat option"

text \<open>\<open>execute_query\<close>: an exception is logged and gives \<open>pd.DataFrame()\<close>.\<close>

definition execute_query :: "warehouse \<Rightarrow> query \<Rightarrow> dataframe" where
  "execute_query w q = (case run_query w q of Some df \<Rightarrow> df | None \<Rightarrow> new_dataframe)"

text \<open>\<open>df[df[col] == v]\<close>: \<open>KeyError\<close> when the frame has no such column\<close>

definition df_where_eq :: "string \<Rightarrow> pyval \<Rightarrow> dataframe \<Rightarrow> dataframe option" where
  "df_where_eq col v df =
     (if col \<in> set (columns df)
      then Some (df\<lparr>records := filter (\<lambda>row. map_of row col = Some v) (records df)\<rparr>)
      else None)"

text \<open>\<open>df.round(2)\<close>\<close>

definition df_round2 :: "warehouse \<Rightarrow> dataframe \<Rightarrow> dataframe" where
  "df_round2 w df =
     df\<lparr>records := map (map (\<lambda>kv. (fst kv, round_cell w (snd kv)))) (records df)\<rparr>"

text \<open>\<open>df[col].sum()\<close>: \<open>KeyError\<close> when the frame has no such column\<close>

definition df_sum :: "warehouse \<Rightarrow> string \<Rightarrow> dataframe \<Rightarrow> rat option" where
  "df_sum w col df =
     (if col \<in> set (columns df)
      then sum_cells w (map (\<lambda>row. case map_of row col of Some v \<Rightarrow> v | None \<Rightarrow> PNone)
                            (records df))
      else None)"

text \<open>\<open>df.to_dict(orient='records') if not df.empty else []\<close>\<close>

definition records_or_empty :: "dataframe \<Rightarrow> dict list" where
  "records_or_empty df = (if \<not> df_empty df then records df else [])"

text \<open>\<open>df.to_dict(orient='records')[0] if not df.empty else {}\<close>\<close>

definition first_record_or_empty :: "dataframe \<Rightarrow> dict" where
  "first_record_or_empty df = (if \<not> df_empty df then hd (records df) else [])"

text \<open>
  \<open>convert_decimals\<close> on a dictionary and on a list of dictionaries: \<open>Decimal\<close>, \<open>float\<close>
  and \<open>int\<close> values (\<open>bool\<close> is an \<open>int\<close>) become floats, every other value stays.
  As in \<open>py_float\<close> a number is its exact rational value, so the rounding of \<open>float(v)\<close>
  and its \<open>OverflowError\<close> are not part of this model.
\<close>

definition convert_value :: "pyval \<Rightarrow> pyval" where
  "convert_value v = (case v of PBool b \<Rightarrow> PNum (if b then 1 else 0) | _ \<Rightarrow> v)"

definition convert_decimals_dict :: "dict \<Rightarrow> dict" where
  "convert_decimals_dict d = map (\<lambda>kv. (fst kv, convert_value (snd kv))) d"

definition convert_decimals :: "dict list \<Rightarrow> dict list" where
  "convert_decimals rows = map convert_decimals_dict rows"

text \<open>
  The block that both builders start with after their queries: the two frames and the
  four totals, replaced only when the PIX concentration is not empty.
\<close>

record pix_totals =
  cash_in :: dataframe
  cash_out :: dataframe
  total_in :: rat
  total_out :: rat
  total_in_atypical :: rat
  total_out_atypical :: rat

definition pix_split :: "warehouse \<Rightarrow> dataframe \<Rightarrow> pix_totals option" where
  "pix_split w pix_concentration =
     (if \<not> df_empty pix_concentration then do {
        ins \<leftarrow> df_where_eq ''transaction_type'' (PStr ''Cash In'') pix_concentration;
        let ins = df_round2 w ins;
        outs \<leftarrow> df_where_eq ''transaction_type'' (PStr ''Cash Out'') pix_concentration;
        let outs = df_round2 w outs;
        t_in \<leftarrow> df_sum w ''pix_amount'' ins;
        t_out \<leftarrow> df_sum w ''pix_amount'' outs;
        t_in_a \<leftarrow> df_sum w ''pix_amount_atypical_hours'' ins;
        t_out_a \<leftarrow> df_sum w ''pix_amount_atypical_hours'' outs;
        Some \<lparr>cash_in = ins, cash_out = outs, total_in = t_in, total_out = t_out,
              total_in_atypical = t_in_a, total_out_atypical = t_out_a\<rparr>
      } else
        Some \<lparr>cash_in = new_dataframe, cash_out = new_dataframe, total_in = 0, total_out = 0,
              total_in_atypical = 0, total_out_atypical = 0\<rparr>)"

text \<open>
  The report dictionary. \<open>subject_info\<close> is the entry \<open>merchant_info\<close> of a merchant
  report and the entry \<open>cardholder_info\<close> of a cardholder report.
\<close>

record report =
  subject_info :: dict
  total_cash_in_pix :: rat
  total_cash_out_pix :: rat
  total_cash_in_pix_atypical_hours :: rat
  total_cash_out_pix_atypical_hours :: rat
  issuing_concentration :: "dict list"
  pix_cash_in :: "dict list"
  pix_cash_out :: "dict list"
  offense_history :: "dict list"
  contacts :: "dict list"
  devices :: "dict list"
  lawsuit_data :: "dict list"
  business_data :: "dict list"
  prison_transactions :: "dict list"
  sanctions_history :: "dict list"
  denied_pix_transactions :: "dict list"
  bets_pix_transfers :: "dict list"
  counterparty_analysis :: counterparty_analysis

record merchant_report_data = report +
  transaction_concentration :: "dict list"
  products_online :: "dict list"
  denied_transactions :: "dict list"

definition cardholder_report ::
    "warehouse \<Rightarrow> env \<Rightarrow> int \<Rightarrow> string \<Rightarrow> report option" where
  "cardholder_report w e uid alert_type = do {
     let cardholder_info = execute_query w (CardholderReport uid);
     let issuing = records_or_empty (execute_query w (IssuingConcentration uid));
     let pix_concentration = execute_query w (PixConcentration uid);
     let offenses = records_or_empty (execute_query w (OffenseAnalysisData uid));
     let phone_contacts = records_or_empty (execute_query w (PhonecastData uid));
     let user_devices = records_or_empty (execute_query w (UserDevice uid));
     pix \<leftarrow> pix_split w pix_concentration;
     let cash_in_list = convert_decimals (records_or_empty (cash_in pix));
     let cash_out_list = convert_decimals (records_or_empty (cash_out pix));
     analysis \<leftarrow> analyze_counterparties e cash_in_list cash_out_list uid;
     Some \<lparr>subject_info = convert_decimals_dict (first_record_or_empty cardholder_info),
           total_cash_in_pix = total_in pix,
           total_cash_out_pix = total_out pix,
           total_cash_in_pix_atypical_hours = total_in_atypical pix,
           total_cash_out_pix_atypical_hours = total_out_atypical pix,
           issuing_concentration = convert_decimals issuing,
           pix_cash_in = cash_in_list,
           pix_cash_out = cash_out_list,
           offense_history = convert_decimals offenses,
           contacts = convert_decimals phone_contacts,
           devices = convert_decimals user_devices,
           lawsuit_data = records_or_empty (execute_query w (LawsuitsData uid)),
           business_data = records_or_empty (execute_query w (BusinessRelationshipsData uid)),
           prison_transactions =
             convert_decimals (records_or_empty (execute_query w (PrisonTransactions uid))),
           sanctions_history =
             convert_decimals (records_or_empty (execute_query w (SanctionsHistory uid))),
           denied_pix_transactions =
             convert_decimals (records_or_empty (execute_query w (RiskPixTransfersData uid))),
           bets_pix_transfers =
             convert_decimals (records_or_empty (execute_query w (BetsPixTransfers uid))),
           counterparty_analysis = analysis\<rparr>
   }"

definition merchant_report ::
    "warehouse \<Rightarrow> env \<Rightarrow> int \<Rightarrow> string \<Rightarrow> merchant_report_data option" where
  "merchant_report w e uid alert_type = do {
     let merchant_info = execute_query w (MerchantReport uid);
     let issuing = records_or_empty (execute_query w (IssuingPaymentsData uid));
     let pix_concentration = execute_query w (PixConcentration uid);
     let by_cardholder = records_or_empty (execute_query w (CardholderConcentration uid));
     let offenses = records_or_empty (execute_query w (OffenseAnalysisData uid));
     let store_products = records_or_empty (execute_query w (OnlineStoreData uid));
     let phone_contacts = records_or_empty (execute_query w (PhonecastData uid));
     let user_devices = records_or_empty (execute_query w (UserDevice uid));
     pix \<leftarrow> pix_split w pix_concentration;
     let cash_in_list = convert_decimals (records_or_empty (cash_in pix));
     let cash_out_list = convert_decimals (records_or_empty (cash_out pix));
     analysis \<leftarrow> analyze_counterparties e cash_in_list cash_out_list uid;
     Some \<lparr>subject_info = convert_decimals_dict (first_record_or_empty merchant_info),
           total_cash_in_pix = total_in pix,
           total_cash_out_pix = total_out pix,
           total_cash_in_pix_atypical_hours = total_in_atypical pix,
           total_cash_out_pix_atypical_hours = total_out_atypical pix,
           issuing_concentration = convert_decimals issuing,
           pix_cash_in = cash_in_list,
           pix_cash_out = cash_out_list,
           offense_history = convert_decimals offenses,
           contacts = convert_decimals phone_contacts,
           devices = convert_decimals user_devices,
           lawsuit_data = records_or_empty (execute_query w (LawsuitsData uid)),
           business_data = records_or_empty (execute_query w (BusinessRelationshipsData uid)),
           prison_transactions =
             convert_decimals (records_or_empty (execute_query w (PrisonTransactions uid))),
           sanctions_history =
             convert_decimals (records_or_empty (execute_query w (SanctionsHistory uid))),
           denied_pix_transactions =
             convert_decimals (records_or_empty (execute_query w (RiskPixTransfersData uid))),
           bets_pix_transfers =
             convert_decimals (records_or_empty (execute_query w (BetsPixTransfers uid))),
           counterparty_analysis = analysis,
           transaction_concentration = convert_decimals by_cardholder,
           products_online = convert_decimals store_products,
           denied_transactions = records_or_empty (execute_query w (RiskTransactionsData uid))\<rparr>
   }"

text \<open>A warehouse with no row for any statement.\<close>

definition empty_warehouse :: warehouse where
  "empty_warehouse =
     \<lparr>run_query = (\<lambda>q. Some \<lparr>columns = [''user_id''], records = []\<rparr>),
      round_cell = (\<lambda>v. v), sum_cells = (\<lambda>vs. Some 0)\<rparr>"

section \<open>Properties of the string operations\<close>

lemma is_prefix_iff: "is_prefix p s \<longleftrightarrow> (\<exists>v. s = p @ v)"
  by (induction p s rule: is_prefix.induct) auto

lemma contains_iff: "contains p s \<longleftrightarrow> (\<exists>u v. s = u @ p @ v)"
proof (induction s)
  case Nil
  then show ?case by simp
next
  case (Cons c cs)
  show ?case
  proof
    assume "contains p (c # cs)"
    then consider "is_prefix p (c # cs)" | "contains p cs" by auto
    then show "\<exists>u v. c # cs = u @ p @ v"
    proof cases
      case 1
      then obtain v where "c # cs = p @ v" by (auto simp: is_prefix_iff)
      then have "c # cs = [] @ p @ v" by simp
      then show ?thesis by blast
    next
      case 2
      then obtain u v where "cs = u @ p @ v" using Cons.IH by auto
      then have "c # cs = (c # u) @ p @ v" by simp
      then show ?thesis by blast
    qed
  next
    assume "\<exists>u v. c # cs = u @ p @ v"
    then obtain u v where uv: "c # cs = u @ p @ v" by blast
    show "contains p (c # cs)"
    proof (cases u)
      case Nil
      then have "is_prefix p (c # cs)" using uv by (auto simp: is_prefix_iff)
      then show ?thesis by simp
    next
      case (Cons a u')
      then have "cs = u' @ p @ v" using uv by simp
      then have "contains p cs" using Cons.IH by blast
      then show ?thesis by simp
    qed
  qed
qed

lemma contains_append_left: "contains p xs \<Longrightarrow> contains p (xs @ ys)"
  unfolding contains_iff by (metis append.assoc)

lemma contains_append_split:
  assumes "ys \<noteq> []" and "hd ys \<notin> set p"
  shows "contains p (xs @ ys) \<longleftrightarrow> contains p xs \<or> contains p ys"
proof
  assume "contains p (xs @ ys)"
  then obtain u v where uv: "xs @ ys = u @ p @ v" unfolding contains_iff by blast
  then obtain w where w: "(xs = u @ w \<and> w @ ys = p @ v) \<or> (xs @ w = u \<and> ys = w @ p @ v)"
    by (auto simp: append_eq_append_conv2)
  show "contains p xs \<or> contains p ys"
  proof (cases "xs = u @ w \<and> w @ ys = p @ v")
    case False
    then have "ys = w @ p @ v" using w by blast
    then show ?thesis unfolding contains_iff by blast
  next
    case True
    then obtain z where z: "(w = p @ z \<and> z @ ys = v) \<or> (w @ z = p \<and> ys = z @ v)"
      by (auto simp: append_eq_append_conv2)
    show ?thesis
    proof (cases "w = p @ z \<and> z @ ys = v")
      case True
      then have "xs = u @ p @ z" using \<open>xs = u @ w \<and> w @ ys = p @ v\<close> by simp
      then show ?thesis unfolding contains_iff by blast
    next
      case False
      then have pz: "w @ z = p" "ys = z @ v" using z by auto
      show ?thesis
      proof (cases z)
        case Nil
        then have "xs = u @ p @ []" using pz True by simp
        then show ?thesis unfolding contains_iff by blast
      next
        case (Cons a z')
        then have "hd ys = a" using pz by simp
        moreover have "a \<in> set p" using pz Cons by auto
        ultimately show ?thesis using assms by simp
      qed
    qed
  qed
next
  assume "contains p xs \<or> contains p ys"
  then show "contains p (xs @ ys)"
    unfolding contains_iff by (metis append.assoc)
qed

lemma lower_append: "lower (xs @ ys) = lower xs @ lower ys"
  by (simp add: lower_def)

lemma medium_note_no_phrase: "\<not> contains ''normalizar o caso'' (lower medium_note)"
  by code_simp

lemma medium_high_note_no_phrase: "\<not> contains ''normalizar o caso'' (lower medium_high_note)"
  by code_simp

lemma hd_medium: "hd (lower medium_note) = CHR 0x0A" "lower medium_note \<noteq> []"
  by code_simp+

lemma hd_medium_high: "hd (lower medium_high_note) = CHR 0x0A" "lower medium_high_note \<noteq> []"
  by code_simp+

section \<open>Properties of \<open>format_export_payload\<close>\<close>

lemma noted_description_override:
  "contains ''normalizar o caso'' (lower (snd (snd (score_decision s d)))) \<longleftrightarrow>
   contains ''normalizar o caso'' (lower d)"
proof -
  have nl: "CHR 0x0A \<notin> set ''normalizar o caso''" by simp
  have a: "contains ''normalizar o caso'' (lower d @ lower medium_note) \<longleftrightarrow>
           contains ''normalizar o caso'' (lower d)"
    using contains_append_split [of "lower medium_note" "''normalizar o caso''" "lower d"]
      hd_medium medium_note_no_phrase nl by simp
  have b: "contains ''normalizar o caso'' (lower d @ lower medium_high_note) \<longleftrightarrow>
           contains ''normalizar o caso'' (lower d)"
    using contains_append_split [of "lower medium_high_note" "''normalizar o caso''" "lower d"]
      hd_medium_high medium_high_note_no_phrase nl by simp
  show ?thesis
    using a b by (simp add: score_decision_def lower_append)
qed

lemma score_decision_table:
  "0 \<le> s \<Longrightarrow> s \<le> 10 \<Longrightarrow>
   (case score_decision s d of (c, p, n) \<Rightarrow> (c, p)) = spec_decision_table s"
  by (auto simp: score_decision_def spec_decision_table_def)

lemma format_no_error:
  "\<not> has_error (sanitize raw) \<Longrightarrow>
   format_export_payload uid raw bv =
     (case score_decision (extract_risk_score (sanitize raw)) (sanitize raw) of
        (concl, prio, noted) \<Rightarrow> make_payload uid noted (normalize_override noted concl) prio)"
  by (simp add: format_export_payload_def Let_def)

text \<open>
  Claim C1. For a description whose sanitized text has no error marker and whose extracted
  score \<open>s\<close> is an integer from 0 to 10 (0 being the default of a score that was not
  found), the if-chain of \<open>format_export_payload\<close> yields exactly the pair of the
  specification's table: normal/high for 0 to 5 and for 6, suspicious/mid for 7 and 8,
  suspicious/high for 9 and offense/high for 10. The priority of the payload is the one of
  the table, and so is its conclusion when the later override on "normalizar o caso"
  (claim C6) does not apply.
\<close>

theorem score_mapping_total:
  assumes "\<not> has_error (sanitize raw)"
    and "extract_risk_score (sanitize raw) = s"
    and "0 \<le> s" and "s \<le> 10"
  shows "(case score_decision s (sanitize raw) of (c, p, n) \<Rightarrow> (c, p)) = spec_decision_table s
     \<and> priority (format_export_payload uid raw bv) = snd (spec_decision_table s)
     \<and> (\<not> contains ''normalizar o caso'' (lower (sanitize raw)) \<longrightarrow>
          conclusion (format_export_payload uid raw bv) = fst (spec_decision_table s))"
proof -
  obtain c p n where cpn: "score_decision s (sanitize raw) = (c, p, n)"
    by (cases "score_decision s (sanitize raw)") auto
  have tab: "(c, p) = spec_decision_table s"
    using score_decision_table [OF assms(3,4), of "sanitize raw"] cpn by simp
  have pay: "format_export_payload uid raw bv = make_payload uid n (normalize_override n c) p"
    using format_no_error [OF assms(1), of uid bv] assms(2) cpn by simp
  have ov: "contains ''normalizar o caso'' (lower n) \<longleftrightarrow>
            contains ''normalizar o caso'' (lower (sanitize raw))"
    using noted_description_override [of s "sanitize raw"] cpn by simp
  have "priority (format_export_payload uid raw bv) = snd (spec_decision_table s)"
    using pay tab by (simp add: make_payload_def) (metis snd_conv)
  moreover have "\<not> contains ''normalizar o caso'' (lower (sanitize raw)) \<longrightarrow>
          conclusion (format_export_payload uid raw bv) = fst (spec_decision_table s)"
    using pay tab ov by (simp add: make_payload_def normalize_override_def) (metis fst_conv)
  ultimately show ?thesis using cpn tab by simp
qed

theorem score_mapping_total_witness:
  "\<not> has_error (sanitize ''## Resumo. **Risco de Lavagem de Dinheiro: 7/10**'')
   \<and> extract_risk_score (sanitize ''## Resumo. **Risco de Lavagem de Dinheiro: 7/10**'') = 7
   \<and> priority (format_export_payload 42 ''## Resumo. **Risco de Lavagem de Dinheiro: 7/10**'' False) = ''mid''
   \<and> conclusion (format_export_payload 42 ''## Resumo. **Risco de Lavagem de Dinheiro: 7/10**'' False) = ''suspicious''"
proof -
  have h1: "\<not> has_error (sanitize ''## Resumo. **Risco de Lavagem de Dinheiro: 7/10**'')"
    by code_simp
  have h2: "extract_risk_score (sanitize ''## Resumo. **Risco de Lavagem de Dinheiro: 7/10**'') = 7"
    by code_simp
  have h3: "\<not> contains ''normalizar o caso'' (lower (sanitize ''## Resumo. **Risco de Lavagem de Dinheiro: 7/10**''))"
    by code_simp
  show ?thesis
    using score_mapping_total [OF h1 h2, of 42 False] h1 h2 h3
    by (simp add: spec_decision_table_def)
qed

text \<open>
  Claim C4. When the sanitized description contains one of the error markers, compared
  in lower case, the payload has the empty conclusion and the priority "high"; it is the
  payload built from the sanitized text alone, so no score is extracted and no note is
  appended.
\<close>

theorem error_marker_payload:
  assumes "has_error (sanitize raw)"
  shows "format_export_payload uid raw bv = make_payload uid (sanitize raw) [] ''high''
     \<and> conclusion (format_export_payload uid raw bv) = []
     \<and> priority (format_export_payload uid raw bv) = ''high''
     \<and> description (format_export_payload uid raw bv) = sanitize raw"
  using assms by (simp add: format_export_payload_def make_payload_def)

theorem error_marker_payload_witness:
  "has_error (sanitize (''Erro: MUITAS transa'' @ [CHR 0xE7, CHR 0xF5] @ ''es. Risco: 9/10''))
   \<and> conclusion (format_export_payload 42 (''Erro: MUITAS transa'' @ [CHR 0xE7, CHR 0xF5] @ ''es. Risco: 9/10'') True) = []
   \<and> priority (format_export_payload 42 (''Erro: MUITAS transa'' @ [CHR 0xE7, CHR 0xF5] @ ''es. Risco: 9/10'') True) = ''high''"
proof -
  have h: "has_error (sanitize (''Erro: MUITAS transa'' @ [CHR 0xE7, CHR 0xF5] @ ''es. Risco: 9/10''))"
    by code_simp
  show ?thesis
    using error_marker_payload [OF h, of 42 True] h by (simp add: make_payload_def)
qed

text \<open>
  Claim C6. When the sanitized text has no error marker, contains "normalizar o caso" in
  any letter case, and the conclusion mapped from the score is not "offense", the
  conclusion of the payload is "normal".
\<close>

theorem normalize_override_forces_normal:
  assumes "\<not> has_error (sanitize raw)"
    and "contains ''normalizar o caso'' (lower (sanitize raw))"
    and "fst (score_decision (extract_risk_score (sanitize raw)) (sanitize raw)) \<noteq> ''offense''"
  shows "conclusion (format_export_payload uid raw bv) = ''normal''"
proof -
  obtain c p n where cpn:
    "score_decision (extract_risk_score (sanitize raw)) (sanitize raw) = (c, p, n)"
    by (cases "score_decision (extract_risk_score (sanitize raw)) (sanitize raw)") auto
  have "contains ''normalizar o caso'' (lower n)"
    using noted_description_override [of "extract_risk_score (sanitize raw)" "sanitize raw"]
      cpn assms(2) by simp
  moreover have "c \<noteq> ''offense''" using assms(3) cpn by simp
  ultimately show ?thesis
    using format_no_error [OF assms(1), of uid bv] cpn
    by (simp add: make_payload_def normalize_override_def)
qed

theorem normalize_override_forces_normal_witness:
  "\<not> has_error (sanitize ''Risco de Lavagem de Dinheiro: 9/10. Sugiro NORMALIZAR o caso.'')
   \<and> contains ''normalizar o caso'' (lower (sanitize ''Risco de Lavagem de Dinheiro: 9/10. Sugiro NORMALIZAR o caso.''))
   \<and> fst (score_decision (extract_risk_score (sanitize ''Risco de Lavagem de Dinheiro: 9/10. Sugiro NORMALIZAR o caso.''))
        (sanitize ''Risco de Lavagem de Dinheiro: 9/10. Sugiro NORMALIZAR o caso.'')) = ''suspicious''
   \<and> conclusion (format_export_payload 42 ''Risco de Lavagem de Dinheiro: 9/10. Sugiro NORMALIZAR o caso.'' False) = ''normal''"
proof -
  have h1: "\<not> has_error (sanitize ''Risco de Lavagem de Dinheiro: 9/10. Sugiro NORMALIZAR o caso.'')"
    by code_simp
  have h2: "contains ''normalizar o caso'' (lower (sanitize ''Risco de Lavagem de Dinheiro: 9/10. Sugiro NORMALIZAR o caso.''))"
    by code_simp
  have h3: "fst (score_decision (extract_risk_score (sanitize ''Risco de Lavagem de Dinheiro: 9/10. Sugiro NORMALIZAR o caso.''))
        (sanitize ''Risco de Lavagem de Dinheiro: 9/10. Sugiro NORMALIZAR o caso.'')) = ''suspicious''"
    by code_simp
  have h4: "fst (score_decision (extract_risk_score (sanitize ''Risco de Lavagem de Dinheiro: 9/10. Sugiro NORMALIZAR o caso.''))
        (sanitize ''Risco de Lavagem de Dinheiro: 9/10. Sugiro NORMALIZAR o caso.'')) \<noteq> ''offense''"
    using h3 by simp
  show ?thesis
    using normalize_override_forces_normal [OF h1 h2 h4, of 42 False] h1 h2 h3 by simp
qed

text \<open>
  Claim C10. The description "Risco de Lavagem de Dinheiro: 12/10" has no error marker,
  the score pattern matches it with the number 12, and the payload has the conclusion
  "offense" and the priority "high": a score above 10 falls into the last branch.
\<close>

theorem score_above_ten_is_offense:
  "\<not> has_error (sanitize ''Risco de Lavagem de Dinheiro: 12/10'')
   \<and> extract_risk_score (sanitize ''Risco de Lavagem de Dinheiro: 12/10'') = 12
   \<and> conclusion (format_export_payload uid ''Risco de Lavagem de Dinheiro: 12/10'' bv) = ''offense''
   \<and> priority (format_export_payload uid ''Risco de Lavagem de Dinheiro: 12/10'' bv) = ''high''"
proof -
  have h1: "\<not> has_error (sanitize ''Risco de Lavagem de Dinheiro: 12/10'')"
    by code_simp
  have h2: "extract_risk_score (sanitize ''Risco de Lavagem de Dinheiro: 12/10'') = 12"
    by code_simp
  have h3: "\<not> contains ''normalizar o caso'' (lower (sanitize ''Risco de Lavagem de Dinheiro: 12/10''))"
    by code_simp
  show ?thesis
    using h1 h2 format_no_error [OF h1, of uid bv]
    by (simp add: score_decision_def make_payload_def normalize_override_def)
qed

section \<open>Properties of the counterparty risk analyzer\<close>

lemma those_eq_Some: "those xs = Some ys \<longleftrightarrow> xs = map Some ys"
proof (induction xs arbitrary: ys)
  case Nil
  then show ?case by auto
next
  case (Cons x xs)
  then show ?case by (cases x) (auto split: option.splits)
qed

lemma for_each_Some:
  "for_each body xs = Some ys \<longleftrightarrow> map body xs = map Some ys"
  by (simp add: for_each_def those_eq_Some)

lemma for_each_length: "for_each body xs = Some ys \<Longrightarrow> length ys = length xs"
  unfolding for_each_Some by (metis length_map)

lemma for_each_nth:
  "for_each body xs = Some ys \<Longrightarrow> i < length xs \<Longrightarrow> body (xs ! i) = Some (ys ! i)"
  unfolding for_each_Some by (metis length_map nth_map)

lemma for_each_member:
  assumes "for_each body xs = Some ys" and "x \<in> set xs"
  shows "\<exists>y. body x = Some y \<and> y \<in> set ys"
proof -
  obtain i where i: "i < length xs" "xs ! i = x" using assms(2) by (auto simp: in_set_conv_nth)
  have "body x = Some (ys ! i)" using for_each_nth [OF assms(1) i(1)] i(2) by simp
  moreover have "ys ! i \<in> set ys" using for_each_length [OF assms(1)] i(1) by simp
  ultimately show ?thesis by blast
qed

lemma for_each_result:
  assumes "for_each body xs = Some ys" and "y \<in> set ys"
  shows "\<exists>x \<in> set xs. body x = Some y"
proof -
  have len: "length ys = length xs" using for_each_length [OF assms(1)] .
  obtain i where i: "i < length ys" "ys ! i = y" using assms(2) by (auto simp: in_set_conv_nth)
  have "body (xs ! i) = Some y" using for_each_nth [OF assms(1), of i] i len by simp
  moreover have "xs ! i \<in> set xs" using i len by simp
  ultimately show ?thesis by blast
qed

lemma truthy_iter_nonempty:
  "truthy v \<Longrightarrow> py_slice n v = Some w \<Longrightarrow> 0 < n \<Longrightarrow> py_iter w = Some items \<Longrightarrow> items \<noteq> []"
  by (cases v) auto

lemma collect_processes_flag:
  assumes "collect_processes person_data = Some (flag, infos)"
  shows "flag \<longleftrightarrow> infos \<noteq> []"
proof -
  from assms obtain lawsuits where
    body: "(if truthy lawsuits then
              Option.bind (py_slice 10 lawsuits) (\<lambda>to_add.
                Option.bind (py_iter to_add) (\<lambda>items.
                  Option.bind (for_each process_info items) (\<lambda>infos. Some (True, infos))))
            else Some (False, [])) = Some (flag, infos)"
    by (auto simp: collect_processes_def split: Option.bind_splits if_splits)
  show ?thesis
  proof (cases "truthy lawsuits")
    case False
    then show ?thesis using body by simp
  next
    case True
    then obtain to_add items where
      s: "py_slice 10 lawsuits = Some to_add" and it: "py_iter to_add = Some items"
      and fe: "for_each process_info items = Some infos" and fl: "flag"
      using body by (auto split: Option.bind_splits)
    have "items \<noteq> []" using truthy_iter_nonempty [OF True s _ it] by simp
    then have "infos \<noteq> []" using for_each_length [OF fe] by auto
    then show ?thesis using fl by simp
  qed
qed

lemma extract_cases:
  assumes "extract_processes_and_sanctions r = Some a"
  shows "a = initial_analysis \<or>
    (\<exists>flag infos sancs doc nm.
       a = \<lparr>document = doc, name = nm, processes = infos, sanctions = sancs,
            has_processes = flag, has_sanctions = (sancs \<noteq> []),
            risk_level = derive_risk_level (sancs \<noteq> []) flag (length infos)\<rparr>
       \<and> (flag \<longleftrightarrow> infos \<noteq> []))"
proof (cases "a = initial_analysis")
  case True
  then show ?thesis by simp
next
  case False
  from assms False obtain procs sancs doc nm person_data where
    a: "a = \<lparr>document = doc, name = nm, processes = snd procs, sanctions = sancs,
            has_processes = fst procs, has_sanctions = (sancs \<noteq> []),
            risk_level = derive_risk_level (sancs \<noteq> []) (fst procs) (length (snd procs))\<rparr>"
    and cp: "collect_processes person_data = Some procs"
    by (auto simp: extract_processes_and_sanctions_def split: Option.bind_splits if_splits)
  have "fst procs \<longleftrightarrow> snd procs \<noteq> []"
    using collect_processes_flag [of person_data "fst procs" "snd procs"] cp by simp
  then show ?thesis using a by blast
qed

lemma risk_levels_distinct:
  "ALTO \<noteq> MEDIO" "ALTO \<noteq> BAIXO_MEDIO" "ALTO \<noteq> BAIXO"
  "MEDIO \<noteq> BAIXO_MEDIO" "MEDIO \<noteq> BAIXO" "BAIXO_MEDIO \<noteq> BAIXO"
  by (simp_all add: ALTO_def MEDIO_def BAIXO_MEDIO_def BAIXO_def)

text \<open>
  Claim C3. Every analysis that \<open>extract_processes_and_sanctions\<close> returns has its
  risk level by strict precedence: ALTO when it lists a sanction, otherwise MEDIO when it
  lists more than 3 processes, otherwise BAIXO-MEDIO when it lists 1 to 3 processes,
  otherwise BAIXO. An analysis with both processes and sanctions is ALTO, and so neither
  MEDIO nor BAIXO-MEDIO.
\<close>

theorem risk_level_precedence:
  assumes "extract_processes_and_sanctions r = Some a"
  shows "risk_level a =
           (if sanctions a \<noteq> [] then ALTO
            else if length (processes a) > 3 then MEDIO
            else if 1 \<le> length (processes a) then BAIXO_MEDIO
            else BAIXO)
     \<and> (sanctions a \<noteq> [] \<and> processes a \<noteq> [] \<longrightarrow>
          risk_level a = ALTO \<and> risk_level a \<noteq> MEDIO \<and> risk_level a \<noteq> BAIXO_MEDIO)"
proof -
  have main: "risk_level a =
           (if sanctions a \<noteq> [] then ALTO
            else if length (processes a) > 3 then MEDIO
            else if 1 \<le> length (processes a) then BAIXO_MEDIO
            else BAIXO)"
    using extract_cases [OF assms]
    by (auto simp: initial_analysis_def derive_risk_level_def Suc_le_eq)
  then show ?thesis using risk_levels_distinct by simp
qed

lemma sample_response_analysis:
  "extract_processes_and_sanctions sample_response =
   Some \<lparr>document = PStr ''11122233344'', name = PStr ''Ana'',
     processes = [[(''process_number'', PStr ''0001''), (''court'', PStr []), (''subject'', PStr []),
           (''type'', PStr []), (''court_level'', PStr []), (''court_type'', PStr []),
           (''district'', PStr [])]],
     sanctions = [[(''type'', PStr ''Arrest Warrant''), (''standardized_type'', PStr []),
        (''source'', PStr []), (''description'', PStr []), (''match_rate'', PNum 100)]],
     has_processes = True, has_sanctions = True, risk_level = ALTO\<rparr>"
  by code_simp

theorem risk_level_precedence_witness:
  "extract_processes_and_sanctions sample_response \<noteq> None
   \<and> sanctions (the (extract_processes_and_sanctions sample_response)) \<noteq> []
   \<and> processes (the (extract_processes_and_sanctions sample_response)) \<noteq> []
   \<and> risk_level (the (extract_processes_and_sanctions sample_response)) = ALTO"
  using risk_level_precedence [OF sample_response_analysis] sample_response_analysis
  by simp

lemma py_get_Some: "py_get v k dflt = Some x \<Longrightarrow> \<exists>d. v = PDict d \<and> x = dict_get d k dflt"
  by (cases v) auto

lemma py_first_truthy: "py_first v = Some x \<Longrightarrow> truthy v"
  by (cases v) (auto split: list.splits)

lemma py_iter_truthy: "py_iter v = Some items \<Longrightarrow> items \<noteq> [] \<Longrightarrow> truthy v"
  by (cases v) auto

lemma sanction_entry_match_rate:
  "sanction_entry s = Some d \<Longrightarrow> map_of d ''match_rate'' = py_get s ''MatchRate'' (PNum 0)"
  by (auto simp: sanction_entry_def split: Option.bind_splits if_splits)

lemma pep_entry_no_match_rate: "pep_entry p = Some d \<Longrightarrow> map_of d ''match_rate'' = None"
  by (auto simp: pep_entry_def split: Option.bind_splits)

lemma sanction_step_cases:
  assumes "sanction_step s = Some xs"
  shows "\<exists>rate d. py_get s ''MatchRate'' (PNum 0) = Some rate \<and> sanction_entry s = Some d \<and>
           xs = (if rate = PNum 100 then [d] else [])"
proof -
  obtain sd where sd: "s = PDict sd"
    using assms by (cases s) (auto simp: sanction_step_def)
  show ?thesis
  proof (cases "dict_get sd ''MatchRate'' (PNum 0) = PNum 100")
    case True
    then show ?thesis
      using assms sd by (auto simp: sanction_step_def split: Option.bind_splits)
  next
    case False
    then obtain det where det: "py_get (dict_get sd ''Details'' (PDict [])) ''OriginalName'' (PStr [])
        = Some det" and xs: "xs = []"
      using assms sd by (auto simp: sanction_step_def split: Option.bind_splits)
    obtain dd where dd: "dict_get sd ''Details'' (PDict []) = PDict dd"
      using py_get_Some [OF det] by blast
    have "dict_get sd ''Details'' PNone = PNone \<or> dict_get sd ''Details'' PNone = PDict dd"
      using dd by (auto simp: dict_get_def split: option.splits)
    then have "\<exists>d. sanction_entry s = Some d"
      using sd dd by (auto simp: sanction_entry_def)
    then show ?thesis using sd False xs by auto
  qed
qed

lemma collect_sanctions_shape:
  assumes "collect_sanctions kyc = Some sancs"
    and "py_get kyc ''SanctionsHistory'' (PList []) = Some sh"
    and "py_iter sh = Some items" and "items \<noteq> []"
  shows "\<exists>peps added flags.
           sancs = peps @ concat added @ flags \<and>
           for_each sanction_step items = Some added \<and>
           (\<forall>d \<in> set peps. map_of d ''match_rate'' = None) \<and>
           (\<forall>d \<in> set flags. map_of d ''match_rate'' = None)"
proof -
  obtain kd where kd: "kyc = PDict kd" "sh = dict_get kd ''SanctionsHistory'' (PList [])"
    using py_get_Some [OF assms(2)] by blast
  have tsh: "truthy sh" using py_iter_truthy [OF assms(3,4)] .
  have tk: "truthy kyc"
  proof (rule ccontr)
    assume "\<not> truthy kyc"
    then have "sh = PList []" using kd by (simp add: dict_get_def)
    then show False using tsh by simp
  qed
  define pep_history where "pep_history = dict_get kd ''PEPHistory'' (PList [])"
  define flags where "flags =
     (if truthy (dict_get kd ''IsCurrentlyPEP'' (PBool False)) then [current_pep_entry] else []) @
     (if truthy (dict_get kd ''IsCurrentlySanctioned'' (PBool False))
      then [current_sanction_entry] else [])"
  have eq: "collect_sanctions kyc =
     Option.bind (if truthy pep_history
                  then Option.bind (py_iter pep_history) (for_each pep_entry) else Some [])
       (\<lambda>peps. Option.bind (for_each sanction_step items)
          (\<lambda>added. Some (peps @ concat added @ flags)))"
    using tk tsh kd assms(3)
    by (simp add: collect_sanctions_def pep_history_def flags_def)
  from assms(1) obtain peps added where
    pp: "(if truthy pep_history
          then Option.bind (py_iter pep_history) (for_each pep_entry) else Some []) = Some peps"
    and fe: "for_each sanction_step items = Some added"
    and s: "sancs = peps @ concat added @ flags"
    unfolding eq by (auto split: Option.bind_splits)
  have fl: "set flags \<subseteq> {current_pep_entry, current_sanction_entry}"
    by (auto simp: flags_def)
  have "\<forall>d \<in> set peps. map_of d ''match_rate'' = None"
  proof
    fix d assume d: "d \<in> set peps"
    then have "truthy pep_history" using pp by (auto split: if_splits)
    then obtain pitems where "for_each pep_entry pitems = Some peps"
      using pp by (auto split: Option.bind_splits)
    from for_each_result [OF this d] obtain x where "pep_entry x = Some d" by blast
    then show "map_of d ''match_rate'' = None" by (rule pep_entry_no_match_rate)
  qed
  moreover have "\<forall>d \<in> set flags. map_of d ''match_rate'' = None"
    using fl by (auto simp: current_pep_entry_def current_sanction_entry_def)
  ultimately show ?thesis using s fe by blast
qed

lemma extract_main_path:
  assumes "extract_processes_and_sanctions r = Some a"
    and "py_get r ''Result'' (PList []) = Some results"
    and "py_first results = Some pd"
    and "py_get pd ''KycData'' (PDict []) = Some kyc"
  shows "collect_sanctions kyc = Some (sanctions a)"
proof -
  obtain rd where rd: "r = PDict rd" "results = dict_get rd ''Result'' (PList [])"
    using py_get_Some [OF assms(2)] by blast
  have tr: "truthy results" using py_first_truthy [OF assms(3)] .
  then have present: "map_of rd ''Result'' \<noteq> None"
    using rd by (auto simp: dict_get_def split: option.splits)
  then have "rd \<noteq> []" by auto
  then show ?thesis
    using assms rd tr present
    by (auto simp: extract_processes_and_sanctions_def split: Option.bind_splits)
qed

text \<open>
  The filter on the runs that return: whenever \<open>extract_processes_and_sanctions\<close>
  returns an analysis for a lookup response, every item of the \<open>SanctionsHistory\<close> of
  that response has its sanction record (type, standardized type, source, description,
  match rate), and this record is not in the resulting \<open>sanctions\<close> when the
  \<open>MatchRate\<close> of the item is below 100, and is in it when the \<open>MatchRate\<close> is
  exactly 100.
\<close>

lemma sanctions_filter_when_returned:
  assumes "extract_processes_and_sanctions r = Some a"
    and "sanctions_history_items r = Some items"
    and "entry \<in> set items"
    and "py_get entry ''MatchRate'' (PNum 0) = Some (PNum m)"
  shows "\<exists>d. sanction_entry entry = Some d
           \<and> (m < 100 \<longrightarrow> d \<notin> set (sanctions a))
           \<and> (m = 100 \<longrightarrow> d \<in> set (sanctions a))"
proof -
  from assms(2) obtain results pd kyc sh where
    g: "py_get r ''Result'' (PList []) = Some results" "py_first results = Some pd"
       "py_get pd ''KycData'' (PDict []) = Some kyc"
       "py_get kyc ''SanctionsHistory'' (PList []) = Some sh" "py_iter sh = Some items"
    by (auto simp: sanctions_history_items_def split: Option.bind_splits)
  have ne: "items \<noteq> []" using assms(3) by auto
  have cs: "collect_sanctions kyc = Some (sanctions a)"
    using extract_main_path [OF assms(1) g(1,2,3)] .
  from collect_sanctions_shape [OF cs g(4,5) ne] obtain peps added flags where
    sh: "sanctions a = peps @ concat added @ flags"
    and fe: "for_each sanction_step items = Some added"
    and np: "\<forall>d \<in> set peps. map_of d ''match_rate'' = None"
    and nf: "\<forall>d \<in> set flags. map_of d ''match_rate'' = None"
    by blast
  from for_each_member [OF fe assms(3)] obtain xs where
    xs: "sanction_step entry = Some xs" "xs \<in> set added" by blast
  from sanction_step_cases [OF xs(1)] assms(4) obtain d where
    d: "sanction_entry entry = Some d" "xs = (if PNum m = PNum 100 then [d] else [])"
    by auto
  have dm: "map_of d ''match_rate'' = Some (PNum m)"
    using sanction_entry_match_rate [OF d(1)] assms(4) by simp
  have accepted: "\<forall>y \<in> set (concat added). map_of y ''match_rate'' = Some (PNum 100)"
  proof
    fix y assume "y \<in> set (concat added)"
    then obtain ys where ys: "ys \<in> set added" "y \<in> set ys" by auto
    from for_each_result [OF fe ys(1)] obtain x where x: "sanction_step x = Some ys" by blast
    from sanction_step_cases [OF x] obtain rate y' where
      r: "py_get x ''MatchRate'' (PNum 0) = Some rate" "sanction_entry x = Some y'"
         "ys = (if rate = PNum 100 then [y'] else [])"
      by blast
    then have "rate = PNum 100" "y = y'" using ys(2) by (auto split: if_splits)
    then show "map_of y ''match_rate'' = Some (PNum 100)"
      using sanction_entry_match_rate [OF r(2)] r(1) by simp
  qed
  have below: "m < 100 \<longrightarrow> d \<notin> set (sanctions a)"
  proof
    assume m: "m < 100"
    show "d \<notin> set (sanctions a)"
    proof
      assume "d \<in> set (sanctions a)"
      then consider "d \<in> set peps" | "d \<in> set (concat added)" | "d \<in> set flags"
        unfolding sh by auto
      then show False
      proof cases
        case 1 then show ?thesis using np dm by auto
      next
        case 2 then show ?thesis using accepted dm m by auto
      next
        case 3 then show ?thesis using nf dm by auto
      qed
    qed
  qed
  have exact: "m = 100 \<longrightarrow> d \<in> set (sanctions a)"
  proof
    assume "m = 100"
    then have "xs = [d]" using d(2) by simp
    then have "d \<in> set (concat added)" using xs(2) by force
    then show "d \<in> set (sanctions a)" unfolding sh by simp
  qed
  show ?thesis using d(1) below exact by blast
qed

lemma sample_history:
  "sanctions_history_items sample_response =
     Some [PDict [(''Type'', PStr ''Arrest Warrant''), (''MatchRate'', PNum 100)],
           PDict [(''Type'', PStr ''Arrest Warrant''), (''MatchRate'', PNum 80)]]"
  by code_simp

lemma sample_entries:
  "sanction_entry (PDict [(''Type'', PStr ''Arrest Warrant''), (''MatchRate'', PNum 100)]) =
     Some [(''type'', PStr ''Arrest Warrant''), (''standardized_type'', PStr []),
           (''source'', PStr []), (''description'', PStr []), (''match_rate'', PNum 100)]"
  "sanction_entry (PDict [(''Type'', PStr ''Arrest Warrant''), (''MatchRate'', PNum 80)]) =
     Some [(''type'', PStr ''Arrest Warrant''), (''standardized_type'', PStr []),
           (''source'', PStr []), (''description'', PStr []), (''match_rate'', PNum 80)]"
  by code_simp+

lemma sanctions_filter_sample:
  "extract_processes_and_sanctions sample_response \<noteq> None
   \<and> sanctions_history_items sample_response =
       Some [PDict [(''Type'', PStr ''Arrest Warrant''), (''MatchRate'', PNum 100)],
             PDict [(''Type'', PStr ''Arrest Warrant''), (''MatchRate'', PNum 80)]]
   \<and> [(''type'', PStr ''Arrest Warrant''), (''standardized_type'', PStr []),
       (''source'', PStr []), (''description'', PStr []), (''match_rate'', PNum 80)]
       \<notin> set (sanctions (the (extract_processes_and_sanctions sample_response)))
   \<and> [(''type'', PStr ''Arrest Warrant''), (''standardized_type'', PStr []),
       (''source'', PStr []), (''description'', PStr []), (''match_rate'', PNum 100)]
       \<in> set (sanctions (the (extract_processes_and_sanctions sample_response)))"
proof -
  have r80: "py_get (PDict [(''Type'', PStr ''Arrest Warrant''), (''MatchRate'', PNum 80)])
               ''MatchRate'' (PNum 0) = Some (PNum 80)"
    by (simp add: dict_get_def)
  have r100: "py_get (PDict [(''Type'', PStr ''Arrest Warrant''), (''MatchRate'', PNum 100)])
               ''MatchRate'' (PNum 0) = Some (PNum 100)"
    by (simp add: dict_get_def)
  have m80: "PDict [(''Type'', PStr ''Arrest Warrant''), (''MatchRate'', PNum 80)] \<in>
     set [PDict [(''Type'', PStr ''Arrest Warrant''), (''MatchRate'', PNum 100)],
          PDict [(''Type'', PStr ''Arrest Warrant''), (''MatchRate'', PNum 80)]]"
    by simp
  have m100: "PDict [(''Type'', PStr ''Arrest Warrant''), (''MatchRate'', PNum 100)] \<in>
     set [PDict [(''Type'', PStr ''Arrest Warrant''), (''MatchRate'', PNum 100)],
          PDict [(''Type'', PStr ''Arrest Warrant''), (''MatchRate'', PNum 80)]]"
    by simp
  show ?thesis
    using sanctions_filter_when_returned [OF sample_response_analysis sample_history m80 r80]
          sanctions_filter_when_returned [OF sample_response_analysis sample_history m100 r100]
          sample_response_analysis sample_history sample_entries
    by simp
qed

text \<open>
  Claim C2 (the code departs from it). The claim is for every lookup response, but the
  branch of a rejected item logs \<open>sanction.get('Details', {}).get('OriginalName', '')\<close>,
  and \<open>get\<close> returns the \<open>None\<close> of a present \<open>"Details": null\<close>, not the default: the
  log line raises, while the branch of an accepted item tests \<open>sanction.get('Details')\<close>
  first. On the response below the first item has match rate 100 and its record is
  built, the second item (match rate 80, \<open>Details\<close> null) makes the loop raise, so
  \<open>extract_processes_and_sanctions\<close> returns no sanctions sequence at all, and
  \<open>analyze_counterparties\<close> skips the counterparty: the match of rate 100 appears
  nowhere.
\<close>

theorem rejected_sanction_log_raises:
  "sanctions_history_items null_details_response =
     Some [PDict [(''Type'', PStr ''Arrest Warrant''), (''MatchRate'', PNum 100)],
           PDict [(''Type'', PStr ''Arrest Warrant''), (''MatchRate'', PNum 80),
                  (''Details'', PNone)]]
   \<and> sanction_step (PDict [(''Type'', PStr ''Arrest Warrant''), (''MatchRate'', PNum 100)]) =
       Some [[(''type'', PStr ''Arrest Warrant''), (''standardized_type'', PStr []),
              (''source'', PStr []), (''description'', PStr []), (''match_rate'', PNum 100)]]
   \<and> sanction_step (PDict [(''Type'', PStr ''Arrest Warrant''), (''MatchRate'', PNum 80),
                            (''Details'', PNone)]) = None
   \<and> extract_processes_and_sanctions null_details_response = None
   \<and> analyze_counterparties null_details_env [sample_transaction ''111.222.333-44'' 10] [] 1 =
       Some \<lparr>top_cash_in_analysis = [], top_cash_out_analysis = [],
             analysis_enabled = True,
             summary = \<lparr>total_counterparties_analyzed = 0, counterparties_with_processes = 0,
                        counterparties_with_sanctions = 0, high_risk_counterparties = 0\<rparr>\<rparr>"
  by code_simp

lemma count_profile_bounded:
  "summary_bounded n s \<Longrightarrow> summary_bounded (Suc n) (count_profile p s)"
  by (simp add: summary_bounded_def count_profile_def)

lemma analyze_top_invariant:
  assumes "summary_bounded (k + length ps) s"
  shows "\<exists>m \<le> length ts.
           length (fst (analyze_top e ttype ts (ps, s))) = length ps + m \<and>
           summary_bounded (k + length ps + m) (snd (analyze_top e ttype ts (ps, s)))"
  using assms
proof (induction ts arbitrary: ps s)
  case Nil
  then show ?case by simp
next
  case (Cons t ts)
  have skip: "\<exists>m \<le> length (t # ts).
           length (fst (analyze_top e ttype ts (ps, s))) = length ps + m \<and>
           summary_bounded (k + length ps + m) (snd (analyze_top e ttype ts (ps, s)))"
    using Cons.IH [OF Cons.prems] by auto
  show ?case
  proof (cases "extract_document_from_transaction e t")
    case None
    then show ?thesis using skip by simp
  next
    case (Some doc)
    show ?thesis
    proof (cases "doc = []")
      case True
      then show ?thesis using skip Some by simp
    next
      case False
      show ?thesis
      proof (cases "lookup_profile e ttype t doc")
        case None
        then show ?thesis using skip Some False by simp
      next
        case (Some p)
        have "summary_bounded (k + length (ps @ [p])) (count_profile p s)"
          using count_profile_bounded [OF Cons.prems] by simp
        from Cons.IH [OF this] obtain m where m: "m \<le> length ts"
          "length (fst (analyze_top e ttype ts (ps @ [p], count_profile p s))) =
             length (ps @ [p]) + m"
          "summary_bounded (k + length (ps @ [p]) + m)
             (snd (analyze_top e ttype ts (ps @ [p], count_profile p s)))"
          by blast
        have eq: "analyze_top e ttype (t # ts) (ps, s) =
                  analyze_top e ttype ts (ps @ [p], count_profile p s)"
          using Some False \<open>extract_document_from_transaction e t = Some doc\<close> by simp
        have "Suc m \<le> length (t # ts)" using m(1) by simp
        moreover have "length (fst (analyze_top e ttype (t # ts) (ps, s))) = length ps + Suc m"
          using m(2) eq by simp
        moreover have "summary_bounded (k + length ps + Suc m)
                         (snd (analyze_top e ttype (t # ts) (ps, s)))"
          using m(3) eq by simp
        ultimately show ?thesis by blast
      qed
    qed
  qed
qed

lemma empty_summary_bounded: "summary_bounded 0 empty_summary"
  by (simp add: summary_bounded_def empty_summary_def)

text \<open>
  Claim C9. Every result of \<open>analyze_counterparties\<close> has at most 3 profiles in each
  of its two lists, a total count equal to the number of profiles of both lists (so at
  most 6), and no other counter above the total.
\<close>

theorem counterparty_analysis_invariant:
  assumes "analyze_counterparties e cash_in_list cash_out_list uid = Some r"
  shows "length (top_cash_in_analysis r) \<le> 3
     \<and> length (top_cash_out_analysis r) \<le> 3
     \<and> total_counterparties_analyzed (summary r) =
         length (top_cash_in_analysis r) + length (top_cash_out_analysis r)
     \<and> total_counterparties_analyzed (summary r) \<le> 6
     \<and> counterparties_with_processes (summary r) \<le> total_counterparties_analyzed (summary r)
     \<and> counterparties_with_sanctions (summary r) \<le> total_counterparties_analyzed (summary r)
     \<and> high_risk_counterparties (summary r) \<le> total_counterparties_analyzed (summary r)"
proof (cases "bdc_available e")
  case False
  then have "r = \<lparr>top_cash_in_analysis = [], top_cash_out_analysis = [],
                  analysis_enabled = bdc_available e, summary = empty_summary\<rparr>"
    using assms by (simp add: analyze_counterparties_def)
  then show ?thesis by (simp add: empty_summary_def)
next
  case True
  then obtain sorted_in sorted_out where
    r: "r = \<lparr>top_cash_in_analysis =
               fst (analyze_top e ''CASH_IN'' (take 3 sorted_in) ([], empty_summary)),
             top_cash_out_analysis =
               fst (analyze_top e ''CASH_OUT'' (take 3 sorted_out)
                     ([], snd (analyze_top e ''CASH_IN'' (take 3 sorted_in) ([], empty_summary)))),
             analysis_enabled = bdc_available e,
             summary =
               snd (analyze_top e ''CASH_OUT'' (take 3 sorted_out)
                     ([], snd (analyze_top e ''CASH_IN'' (take 3 sorted_in) ([], empty_summary))))\<rparr>"
    using assms by (auto simp: analyze_counterparties_def Let_def split: Option.bind_splits)
  define after_in where "after_in = analyze_top e ''CASH_IN'' (take 3 sorted_in) ([], empty_summary)"
  define after_out where "after_out = analyze_top e ''CASH_OUT'' (take 3 sorted_out) ([], snd after_in)"
  have "summary_bounded (0 + length ([] :: profile list)) empty_summary"
    using empty_summary_bounded by simp
  from analyze_top_invariant [OF this, of "take 3 sorted_in" e "''CASH_IN''"]
  obtain m where m: "m \<le> length (take 3 sorted_in)" "length (fst after_in) = m"
    "summary_bounded m (snd after_in)"
    unfolding after_in_def by auto
  have "summary_bounded (m + length ([] :: profile list)) (snd after_in)" using m(3) by simp
  from analyze_top_invariant [OF this, of "take 3 sorted_out" e "''CASH_OUT''"]
  obtain n where n: "n \<le> length (take 3 sorted_out)" "length (fst after_out) = n"
    "summary_bounded (m + n) (snd after_out)"
    unfolding after_out_def by auto
  have r': "top_cash_in_analysis r = fst after_in" "top_cash_out_analysis r = fst after_out"
    "summary r = snd after_out"
    using r by (simp_all add: after_in_def after_out_def)
  have "m \<le> 3" "n \<le> 3" using m(1) n(1) by simp_all
  then show ?thesis
    using m(2) n(2,3) unfolding r' by (simp add: summary_bounded_def)
qed

lemma sample_run_returns:
  "analyze_counterparties sample_env
     [sample_transaction ''111.222.333-44'' 5, sample_transaction ''222.333.444-55'' 50,
      sample_transaction ''333.444.555-66'' 7, sample_transaction ''444.555.666-77'' 6]
     [sample_transaction ''111.222.333-44'' 1] 1 \<noteq> None"
  by code_simp

theorem counterparty_analysis_invariant_witness:
  "analyze_counterparties sample_env
     [sample_transaction ''111.222.333-44'' 5, sample_transaction ''222.333.444-55'' 50,
      sample_transaction ''333.444.555-66'' 7, sample_transaction ''444.555.666-77'' 6]
     [sample_transaction ''111.222.333-44'' 1] 1 \<noteq> None
   \<and> total_counterparties_analyzed (summary (the (analyze_counterparties sample_env
     [sample_transaction ''111.222.333-44'' 5, sample_transaction ''222.333.444-55'' 50,
      sample_transaction ''333.444.555-66'' 7, sample_transaction ''444.555.666-77'' 6]
     [sample_transaction ''111.222.333-44'' 1] 1))) \<le> 6
   \<and> high_risk_counterparties (summary (the (analyze_counterparties sample_env
     [sample_transaction ''111.222.333-44'' 5, sample_transaction ''222.333.444-55'' 50,
      sample_transaction ''333.444.555-66'' 7, sample_transaction ''444.555.666-77'' 6]
     [sample_transaction ''111.222.333-44'' 1] 1)))
      \<le> total_counterparties_analyzed (summary (the (analyze_counterparties sample_env
     [sample_transaction ''111.222.333-44'' 5, sample_transaction ''222.333.444-55'' 50,
      sample_transaction ''333.444.555-66'' 7, sample_transaction ''444.555.666-77'' 6]
     [sample_transaction ''111.222.333-44'' 1] 1)))"
proof -
  obtain r where r: "analyze_counterparties sample_env
     [sample_transaction ''111.222.333-44'' 5, sample_transaction ''222.333.444-55'' 50,
      sample_transaction ''333.444.555-66'' 7, sample_transaction ''444.555.666-77'' 6]
     [sample_transaction ''111.222.333-44'' 1] 1 = Some r"
    using sample_run_returns by auto
  show ?thesis
    using counterparty_analysis_invariant [OF r] r by simp
qed

text \<open>
  What \<open>sorted(xs, key=key, reverse=True)\<close> returns when no key raises: the records of
  the input, by descending key, those of equal key in their original order.
\<close>

lemma insort_key_tagged_shape:
  "insort_key (\<lambda>kx. - fst kx) (f x, x) (map (\<lambda>x. (f x, x)) ys) =
   map (\<lambda>x. (f x, x)) (insort_key (\<lambda>x. - f x) x ys)"
  by (induction ys) simp_all

lemma sort_key_tagged:
  "sort_key (\<lambda>kx. - fst kx) (map (\<lambda>x. (f x, x)) xs) =
   map (\<lambda>x. (f x, x)) (sort_key (\<lambda>x. - f x) xs)"
  by (induction xs) (simp_all add: insort_key_tagged_shape)

lemma sorted_reverse_eq:
  fixes key :: "'a \<Rightarrow> rat option"
  assumes "sorted_reverse key xs = Some ys"
  shows "ys = sort_key (\<lambda>x. - the (key x)) xs"
proof -
  from assms obtain keys where
    keys: "for_each key xs = Some keys" and
    ys: "ys = map snd (sort_key (\<lambda>kx. - fst kx) (zip keys xs))"
    by (auto simp: sorted_reverse_def split: Option.bind_splits)
  have "map key xs = map Some keys"
    using keys by (simp add: for_each_Some)
  then have "map the (map key xs) = map the (map Some keys)"
    by (rule arg_cong)
  then have "keys = map (\<lambda>x. the (key x)) xs"
    by (simp add: comp_def)
  then have "zip keys xs = map (\<lambda>x. (the (key x), x)) xs"
    by (simp add: zip_map1 zip_same_conv_map)
  then show ?thesis
    using ys by (simp add: sort_key_tagged comp_def)
qed

lemma sorted_reverse_returns:
  "(\<forall>x \<in> set xs. key x \<noteq> None) \<Longrightarrow> sorted_reverse key xs \<noteq> None"
proof -
  assume a: "\<forall>x \<in> set xs. key x \<noteq> None"
  have "map key xs = map Some (map (\<lambda>x. the (key x)) xs)"
    using a by auto
  then have "for_each key xs = Some (map (\<lambda>x. the (key x)) xs)"
    by (simp only: for_each_Some)
  then show ?thesis
    by (simp add: sorted_reverse_def)
qed

lemma sorted_reverse_descending:
  fixes key :: "'a \<Rightarrow> rat option"
  assumes "sorted_reverse key xs = Some ys" and "i \<le> j" and "j < length ys"
  shows "the (key (ys ! j)) \<le> the (key (ys ! i))"
proof -
  have "sorted (map (\<lambda>x. - the (key x)) ys)"
    unfolding sorted_reverse_eq [OF assms(1)] by (rule sorted_sort_key)
  then have "map (\<lambda>x. - the (key x)) ys ! i \<le> map (\<lambda>x. - the (key x)) ys ! j"
    using assms(2,3) by (intro sorted_nth_mono) simp_all
  then show ?thesis
    using assms(2,3) by simp
qed

lemma sorted_reverse_same_records:
  fixes key :: "'a \<Rightarrow> rat option"
  assumes "sorted_reverse key xs = Some ys"
  shows "set ys = set xs \<and> length ys = length xs"
  unfolding sorted_reverse_eq [OF assms] by simp

lemma sorted_reverse_stable:
  fixes key :: "'a \<Rightarrow> rat option"
  assumes "sorted_reverse key xs = Some ys"
  shows "filter (\<lambda>x. the (key x) = k) ys = filter (\<lambda>x. the (key x) = k) xs"
proof -
  have "filter (\<lambda>x. - the (key x) = - k) (sort_key (\<lambda>x. - the (key x)) xs) =
        filter (\<lambda>x. - the (key x) = - k) xs"
    by (rule sort_key_stable)
  then show ?thesis
    unfolding sorted_reverse_eq [OF assms] by simp
qed

lemma amount_key_missing:
  "map_of x ''pix_amount'' = None \<Longrightarrow> amount_key e x = Some 0"
  by (simp add: amount_key_def dict_get_def py_float_def)









text \<open>
  Claim C5 (the code departs from it). The sort key is \<open>float(x.get('pix_amount', 0))\<close>:
  a record without the key sorts as 0, but a record whose amount is \<open>None\<close> makes
  \<open>float\<close> raise, outside any \<open>try\<close>, and the whole analysis is lost.
\<close>

theorem null_amount_raises:
  "amount_key e [(''party_document_number'', PStr ''11122233344'')] = Some 0
   \<and> amount_key e [(''party_document_number'', PStr ''11122233344''), (''pix_amount'', PNone)]
       = None
   \<and> analyze_counterparties (e\<lparr>bdc_available := True\<rparr>)
       [[(''party_document_number'', PStr ''11122233344''), (''pix_amount'', PNone)]] [] uid
       = None"
  by (simp add: analyze_counterparties_def sorted_reverse_def for_each_def amount_key_def
        dict_get_def py_float_def)

section \<open>Properties of the report builders\<close>

lemma analyze_counterparties_no_transactions:
  "\<exists>a. analyze_counterparties e [] [] uid = Some a"
  by (simp add: analyze_counterparties_def sorted_reverse_def for_each_def)

lemma pix_split_no_rows:
  assumes "records pix_concentration = []"
  shows "pix_split w pix_concentration =
         Some \<lparr>cash_in = new_dataframe, cash_out = new_dataframe, total_in = 0, total_out = 0,
               total_in_atypical = 0, total_out_atypical = 0\<rparr>"
  using assms by (simp add: pix_split_def df_empty_def)

lemma records_or_empty_no_rows:
  "records df = [] \<Longrightarrow> records_or_empty df = []"
  by (simp add: records_or_empty_def)

lemma first_record_or_empty_no_rows:
  "records df = [] \<Longrightarrow> first_record_or_empty df = []"
  by (simp add: first_record_or_empty_def df_empty_def)

lemma records_or_empty_new_dataframe:
  "records_or_empty new_dataframe = []"
  by (simp add: records_or_empty_def new_dataframe_def)

lemma convert_decimals_Nil:
  "convert_decimals [] = []" "convert_decimals_dict [] = []"
  by (simp_all add: convert_decimals_def convert_decimals_dict_def)

lemma execute_query_exception:
  "run_query w q = None \<Longrightarrow> records (execute_query w q) = []"
  by (simp add: execute_query_def new_dataframe_def)

lemmas no_rows_simps =
  pix_split_no_rows records_or_empty_no_rows first_record_or_empty_no_rows
  records_or_empty_new_dataframe convert_decimals_Nil

lemma pix_split_defaults:
  assumes "records (execute_query w (PixConcentration uid)) = []"
  shows "pix_split w (execute_query w (PixConcentration uid)) \<noteq> None"
    and "pix_split w (execute_query w (PixConcentration uid)) = Some pix \<Longrightarrow>
         total_in pix = 0 \<and> total_out pix = 0 \<and> total_in_atypical pix = 0 \<and>
         total_out_atypical pix = 0 \<and>
         convert_decimals (records_or_empty (cash_in pix)) = [] \<and>
         convert_decimals (records_or_empty (cash_out pix)) = []"
  using assms by (auto simp add: no_rows_simps)

lemma cardholder_report_returns:
  assumes "records (execute_query w (PixConcentration uid)) = []"
  shows "cardholder_report w e uid alert_type \<noteq> None"
proof -
  obtain a where "analyze_counterparties e [] [] uid = Some a"
    using analyze_counterparties_no_transactions by blast
  then show ?thesis
    using assms by (simp add: cardholder_report_def no_rows_simps)
qed

lemma merchant_report_returns:
  assumes "records (execute_query w (PixConcentration uid)) = []"
  shows "merchant_report w e uid alert_type \<noteq> None"
proof -
  obtain a where "analyze_counterparties e [] [] uid = Some a"
    using analyze_counterparties_no_transactions by blast
  then show ?thesis
    using assms by (simp add: merchant_report_def no_rows_simps)
qed

lemma cardholder_report_shape:
  assumes "cardholder_report w e uid alert_type = Some r"
  obtains pix a where
    "pix_split w (execute_query w (PixConcentration uid)) = Some pix"
    "r = \<lparr>subject_info =
            convert_decimals_dict
              (first_record_or_empty (execute_query w (CardholderReport uid))),
          total_cash_in_pix = total_in pix,
          total_cash_out_pix = total_out pix,
          total_cash_in_pix_atypical_hours = total_in_atypical pix,
          total_cash_out_pix_atypical_hours = total_out_atypical pix,
          issuing_concentration =
            convert_decimals (records_or_empty (execute_query w (IssuingConcentration uid))),
          pix_cash_in = convert_decimals (records_or_empty (cash_in pix)),
          pix_cash_out = convert_decimals (records_or_empty (cash_out pix)),
          offense_history =
            convert_decimals (records_or_empty (execute_query w (OffenseAnalysisData uid))),
          contacts = convert_decimals (records_or_empty (execute_query w (PhonecastData uid))),
          devices = convert_decimals (records_or_empty (execute_query w (UserDevice uid))),
          lawsuit_data = records_or_empty (execute_query w (LawsuitsData uid)),
          business_data = records_or_empty (execute_query w (BusinessRelationshipsData uid)),
          prison_transactions =
            convert_decimals (records_or_empty (execute_query w (PrisonTransactions uid))),
          sanctions_history =
            convert_decimals (records_or_empty (execute_query w (SanctionsHistory uid))),
          denied_pix_transactions =
            convert_decimals (records_or_empty (execute_query w (RiskPixTransfersData uid))),
          bets_pix_transfers =
            convert_decimals (records_or_empty (execute_query w (BetsPixTransfers uid))),
          counterparty_analysis = a\<rparr>"
  using assms unfolding cardholder_report_def Let_def
  by (cases "pix_split w (execute_query w (PixConcentration uid))")
     (auto split: Option.bind_splits)

lemma merchant_report_shape:
  assumes "merchant_report w e uid alert_type = Some m"
  obtains pix a where
    "pix_split w (execute_query w (PixConcentration uid)) = Some pix"
    "m = \<lparr>subject_info =
            convert_decimals_dict
              (first_record_or_empty (execute_query w (MerchantReport uid))),
          total_cash_in_pix = total_in pix,
          total_cash_out_pix = total_out pix,
          total_cash_in_pix_atypical_hours = total_in_atypical pix,
          total_cash_out_pix_atypical_hours = total_out_atypical pix,
          issuing_concentration =
            convert_decimals (records_or_empty (execute_query w (IssuingPaymentsData uid))),
          pix_cash_in = convert_decimals (records_or_empty (cash_in pix)),
          pix_cash_out = convert_decimals (records_or_empty (cash_out pix)),
          offense_history =
            convert_decimals (records_or_empty (execute_query w (OffenseAnalysisData uid))),
          contacts = convert_decimals (records_or_empty (execute_query w (PhonecastData uid))),
          devices = convert_decimals (records_or_empty (execute_query w (UserDevice uid))),
          lawsuit_data = records_or_empty (execute_query w (LawsuitsData uid)),
          business_data = records_or_empty (execute_query w (BusinessRelationshipsData uid)),
          prison_transactions =
            convert_decimals (records_or_empty (execute_query w (PrisonTransactions uid))),
          sanctions_history =
            convert_decimals (records_or_empty (execute_query w (SanctionsHistory uid))),
          denied_pix_transactions =
            convert_decimals (records_or_empty (execute_query w (RiskPixTransfersData uid))),
          bets_pix_transfers =
            convert_decimals (records_or_empty (execute_query w (BetsPixTransfers uid))),
          counterparty_analysis = a,
          transaction_concentration =
            convert_decimals
              (records_or_empty (execute_query w (CardholderConcentration uid))),
          products_online =
            convert_decimals (records_or_empty (execute_query w (OnlineStoreData uid))),
          denied_transactions =
            records_or_empty (execute_query w (RiskTransactionsData uid))\<rparr>"
  using assms unfolding merchant_report_def Let_def
  by (cases "pix_split w (execute_query w (PixConcentration uid))")
     (auto split: Option.bind_splits)

lemma cardholder_report_defaults:
  assumes "cardholder_report w e uid alert_type = Some r"
  shows "(records (execute_query w (PixConcentration uid)) = [] \<longrightarrow>
            total_cash_in_pix r = 0 \<and> total_cash_out_pix r = 0 \<and>
            total_cash_in_pix_atypical_hours r = 0 \<and>
            total_cash_out_pix_atypical_hours r = 0 \<and>
            pix_cash_in r = [] \<and> pix_cash_out r = []) \<and>
         (records (execute_query w (CardholderReport uid)) = [] \<longrightarrow>
            subject_info r = []) \<and>
         (records (execute_query w (IssuingConcentration uid)) = [] \<longrightarrow>
            issuing_concentration r = []) \<and>
         (records (execute_query w (OffenseAnalysisData uid)) = [] \<longrightarrow>
            offense_history r = []) \<and>
         (records (execute_query w (PhonecastData uid)) = [] \<longrightarrow>
            contacts r = []) \<and>
         (records (execute_query w (UserDevice uid)) = [] \<longrightarrow>
            devices r = []) \<and>
         (records (execute_query w (LawsuitsData uid)) = [] \<longrightarrow>
            lawsuit_data r = []) \<and>
         (records (execute_query w (BusinessRelationshipsData uid)) = [] \<longrightarrow>
            business_data r = []) \<and>
         (records (execute_query w (PrisonTransactions uid)) = [] \<longrightarrow>
            prison_transactions r = []) \<and>
         (records (execute_query w (SanctionsHistory uid)) = [] \<longrightarrow>
            sanctions_history r = []) \<and>
         (records (execute_query w (RiskPixTransfersData uid)) = [] \<longrightarrow>
            denied_pix_transactions r = []) \<and>
         (records (execute_query w (BetsPixTransfers uid)) = [] \<longrightarrow>
            bets_pix_transfers r = [])"
proof -
  obtain pix a where
    pix: "pix_split w (execute_query w (PixConcentration uid)) = Some pix" and
    r: "r = \<lparr>subject_info =
            convert_decimals_dict
              (first_record_or_empty (execute_query w (CardholderReport uid))),
          total_cash_in_pix = total_in pix,
          total_cash_out_pix = total_out pix,
          total_cash_in_pix_atypical_hours = total_in_atypical pix,
          total_cash_out_pix_atypical_hours = total_out_atypical pix,
          issuing_concentration =
            convert_decimals (records_or_empty (execute_query w (IssuingConcentration uid))),
          pix_cash_in = convert_decimals (records_or_empty (cash_in pix)),
          pix_cash_out = convert_decimals (records_or_empty (cash_out pix)),
          offense_history =
            convert_decimals (records_or_empty (execute_query w (OffenseAnalysisData uid))),
          contacts = convert_decimals (records_or_empty (execute_query w (PhonecastData uid))),
          devices = convert_decimals (records_or_empty (execute_query w (UserDevice uid))),
          lawsuit_data = records_or_empty (execute_query w (LawsuitsData uid)),
          business_data = records_or_empty (execute_query w (BusinessRelationshipsData uid)),
          prison_transactions =
            convert_decimals (records_or_empty (execute_query w (PrisonTransactions uid))),
          sanctions_history =
            convert_decimals (records_or_empty (execute_query w (SanctionsHistory uid))),
          denied_pix_transactions =
            convert_decimals (records_or_empty (execute_query w (RiskPixTransfersData uid))),
          bets_pix_transfers =
            convert_decimals (records_or_empty (execute_query w (BetsPixTransfers uid))),
          counterparty_analysis = a\<rparr>"
    using assms by (rule cardholder_report_shape)
  show ?thesis
    unfolding r using pix_split_defaults(2) [OF _ pix]
    by (simp add: records_or_empty_no_rows first_record_or_empty_no_rows convert_decimals_Nil)
qed

lemma merchant_report_defaults:
  assumes "merchant_report w e uid alert_type = Some m"
  shows "(records (execute_query w (PixConcentration uid)) = [] \<longrightarrow>
            total_cash_in_pix m = 0 \<and> total_cash_out_pix m = 0 \<and>
            total_cash_in_pix_atypical_hours m = 0 \<and>
            total_cash_out_pix_atypical_hours m = 0 \<and>
            pix_cash_in m = [] \<and> pix_cash_out m = []) \<and>
         (records (execute_query w (MerchantReport uid)) = [] \<longrightarrow>
            subject_info m = []) \<and>
         (records (execute_query w (IssuingPaymentsData uid)) = [] \<longrightarrow>
            issuing_concentration m = []) \<and>
         (records (execute_query w (CardholderConcentration uid)) = [] \<longrightarrow>
            transaction_concentration m = []) \<and>
         (records (execute_query w (OffenseAnalysisData uid)) = [] \<longrightarrow>
            offense_history m = []) \<and>
         (records (execute_query w (OnlineStoreData uid)) = [] \<longrightarrow>
            products_online m = []) \<and>
         (records (execute_query w (PhonecastData uid)) = [] \<longrightarrow>
            contacts m = []) \<and>
         (records (execute_query w (UserDevice uid)) = [] \<longrightarrow>
            devices m = []) \<and>
         (records (execute_query w (LawsuitsData uid)) = [] \<longrightarrow>
            lawsuit_data m = []) \<and>
         (records (execute_query w (RiskTransactionsData uid)) = [] \<longrightarrow>
            denied_transactions m = []) \<and>
         (records (execute_query w (BusinessRelationshipsData uid)) = [] \<longrightarrow>
            business_data m = []) \<and>
         (records (execute_query w (PrisonTransactions uid)) = [] \<longrightarrow>
            prison_transactions m = []) \<and>
         (records (execute_query w (SanctionsHistory uid)) = [] \<longrightarrow>
            sanctions_history m = []) \<and>
         (records (execute_query w (RiskPixTransfersData uid)) = [] \<longrightarrow>
            denied_pix_transactions m = []) \<and>
         (records (execute_query w (BetsPixTransfers uid)) = [] \<longrightarrow>
            bets_pix_transfers m = [])"
proof -
  obtain pix a where
    pix: "pix_split w (execute_query w (PixConcentration uid)) = Some pix" and
    m: "m = \<lparr>subject_info =
            convert_decimals_dict
              (first_record_or_empty (execute_query w (MerchantReport uid))),
          total_cash_in_pix = total_in pix,
          total_cash_out_pix = total_out pix,
          total_cash_in_pix_atypical_hours = total_in_atypical pix,
          total_cash_out_pix_atypical_hours = total_out_atypical pix,
          issuing_concentration =
            convert_decimals (records_or_empty (execute_query w (IssuingPaymentsData uid))),
          pix_cash_in = convert_decimals (records_or_empty (cash_in pix)),
          pix_cash_out = convert_decimals (records_or_empty (cash_out pix)),
          offense_history =
            convert_decimals (records_or_empty (execute_query w (OffenseAnalysisData uid))),
          contacts = convert_decimals (records_or_empty (execute_query w (PhonecastData uid))),
          devices = convert_decimals (records_or_empty (execute_query w (UserDevice uid))),
          lawsuit_data = records_or_empty (execute_query w (LawsuitsData uid)),
          business_data = records_or_empty (execute_query w (BusinessRelationshipsData uid)),
          prison_transactions =
            convert_decimals (records_or_empty (execute_query w (PrisonTransactions uid))),
          sanctions_history =
            convert_decimals (records_or_empty (execute_query w (SanctionsHistory uid))),
          denied_pix_transactions =
            convert_decimals (records_or_empty (execute_query w (RiskPixTransfersData uid))),
          bets_pix_transfers =
            convert_decimals (records_or_empty (execute_query w (BetsPixTransfers uid))),
          counterparty_analysis = a,
          transaction_concentration =
            convert_decimals
              (records_or_empty (execute_query w (CardholderConcentration uid))),
          products_online =
            convert_decimals (records_or_empty (execute_query w (OnlineStoreData uid))),
          denied_transactions =
            records_or_empty (execute_query w (RiskTransactionsData uid))\<rparr>"
    using assms by (rule merchant_report_shape)
  show ?thesis
    unfolding m using pix_split_defaults(2) [OF _ pix]
    by (simp add: records_or_empty_no_rows first_record_or_empty_no_rows convert_decimals_Nil)
qed

text \<open>
  Claim C8. Both report builders return a report when the PIX concentration query
  returns no rows. In a report that a builder returns, the four PIX totals are 0 and
  the two PIX lists are empty when the PIX concentration query returned no rows, the
  subject information is the empty dictionary when the profile query returned no rows,
  and every list-valued field is the empty list when its query returned no rows. A
  query that raised counts as one that returned no rows (\<open>execute_query\<close>).
\<close>

theorem report_defaults_without_data:
  "(records (execute_query w (PixConcentration uid)) = [] \<longrightarrow>
      cardholder_report w e uid alert_type \<noteq> None \<and>
      merchant_report w e uid alert_type \<noteq> None) \<and>
   (cardholder_report w e uid alert_type = Some r \<longrightarrow>
      (records (execute_query w (PixConcentration uid)) = [] \<longrightarrow>
         total_cash_in_pix r = 0 \<and> total_cash_out_pix r = 0 \<and>
         total_cash_in_pix_atypical_hours r = 0 \<and>
         total_cash_out_pix_atypical_hours r = 0 \<and>
         pix_cash_in r = [] \<and> pix_cash_out r = []) \<and>
      (records (execute_query w (CardholderReport uid)) = [] \<longrightarrow>
         subject_info r = []) \<and>
      (records (execute_query w (IssuingConcentration uid)) = [] \<longrightarrow>
         issuing_concentration r = []) \<and>
      (records (execute_query w (OffenseAnalysisData uid)) = [] \<longrightarrow>
         offense_history r = []) \<and>
      (records (execute_query w (PhonecastData uid)) = [] \<longrightarrow>
         contacts r = []) \<and>
      (records (execute_query w (UserDevice uid)) = [] \<longrightarrow>
         devices r = []) \<and>
      (records (execute_query w (LawsuitsData uid)) = [] \<longrightarrow>
         lawsuit_data r = []) \<and>
      (records (execute_query w (BusinessRelationshipsData uid)) = [] \<longrightarrow>
         business_data r = []) \<and>
      (records (execute_query w (PrisonTransactions uid)) = [] \<longrightarrow>
         prison_transactions r = []) \<and>
      (records (execute_query w (SanctionsHistory uid)) = [] \<longrightarrow>
         sanctions_history r = []) \<and>
      (records (execute_query w (RiskPixTransfersData uid)) = [] \<longrightarrow>
         denied_pix_transactions r = []) \<and>
      (records (execute_query w (BetsPixTransfers uid)) = [] \<longrightarrow>
         bets_pix_transfers r = [])) \<and>
   (merchant_report w e uid alert_type = Some m \<longrightarrow>
      (records (execute_query w (PixConcentration uid)) = [] \<longrightarrow>
         total_cash_in_pix m = 0 \<and> total_cash_out_pix m = 0 \<and>
         total_cash_in_pix_atypical_hours m = 0 \<and>
         total_cash_out_pix_atypical_hours m = 0 \<and>
         pix_cash_in m = [] \<and> pix_cash_out m = []) \<and>
      (records (execute_query w (MerchantReport uid)) = [] \<longrightarrow>
         subject_info m = []) \<and>
      (records (execute_query w (IssuingPaymentsData uid)) = [] \<longrightarrow>
         issuing_concentration m = []) \<and>
      (records (execute_query w (CardholderConcentration uid)) = [] \<longrightarrow>
         transaction_concentration m = []) \<and>
      (records (execute_query w (OffenseAnalysisData uid)) = [] \<longrightarrow>
         offense_history m = []) \<and>
      (records (execute_query w (OnlineStoreData uid)) = [] \<longrightarrow>
         products_online m = []) \<and>
      (records (execute_query w (PhonecastData uid)) = [] \<longrightarrow>
         contacts m = []) \<and>
      (records (execute_query w (UserDevice uid)) = [] \<longrightarrow>
         devices m = []) \<and>
      (records (execute_query w (LawsuitsData uid)) = [] \<longrightarrow>
         lawsuit_data m = []) \<and>
      (records (execute_query w (RiskTransactionsData uid)) = [] \<longrightarrow>
         denied_transactions m = []) \<and>
      (records (execute_query w (BusinessRelationshipsData uid)) = [] \<longrightarrow>
         business_data m = []) \<and>
      (records (execute_query w (PrisonTransactions uid)) = [] \<longrightarrow>
         prison_transactions m = []) \<and>
      (records (execute_query w (SanctionsHistory uid)) = [] \<longrightarrow>
         sanctions_history m = []) \<and>
      (records (execute_query w (RiskPixTransfersData uid)) = [] \<longrightarrow>
         denied_pix_transactions m = []) \<and>
      (records (execute_query w (BetsPixTransfers uid)) = [] \<longrightarrow>
         bets_pix_transfers m = []))"
proof (intro conjI)
  show "records (execute_query w (PixConcentration uid)) = [] \<longrightarrow>
      cardholder_report w e uid alert_type \<noteq> None \<and>
      merchant_report w e uid alert_type \<noteq> None"
    using cardholder_report_returns merchant_report_returns by blast
next
  show "cardholder_report w e uid alert_type = Some r \<longrightarrow>
      (records (execute_query w (PixConcentration uid)) = [] \<longrightarrow>
         total_cash_in_pix r = 0 \<and> total_cash_out_pix r = 0 \<and>
         total_cash_in_pix_atypical_hours r = 0 \<and>
         total_cash_out_pix_atypical_hours r = 0 \<and>
         pix_cash_in r = [] \<and> pix_cash_out r = []) \<and>
      (records (execute_query w (CardholderReport uid)) = [] \<longrightarrow>
         subject_info r = []) \<and>
      (records (execute_query w (IssuingConcentration uid)) = [] \<longrightarrow>
         issuing_concentration r = []) \<and>
      (records (execute_query w (OffenseAnalysisData uid)) = [] \<longrightarrow>
         offense_history r = []) \<and>
      (records (execute_query w (PhonecastData uid)) = [] \<longrightarrow>
         contacts r = []) \<and>
      (records (execute_query w (UserDevice uid)) = [] \<longrightarrow>
         devices r = []) \<and>
      (records (execute_query w (LawsuitsData uid)) = [] \<longrightarrow>
         lawsuit_data r = []) \<and>
      (records (execute_query w (BusinessRelationshipsData uid)) = [] \<longrightarrow>
         business_data r = []) \<and>
      (records (execute_query w (PrisonTransactions uid)) = [] \<longrightarrow>
         prison_transactions r = []) \<and>
      (records (execute_query w (SanctionsHistory uid)) = [] \<longrightarrow>
         sanctions_history r = []) \<and>
      (records (execute_query w (RiskPixTransfersData uid)) = [] \<longrightarrow>
         denied_pix_transactions r = []) \<and>
      (records (execute_query w (BetsPixTransfers uid)) = [] \<longrightarrow>
         bets_pix_transfers r = [])"
    by (rule impI) (rule cardholder_report_defaults)
next
  show "merchant_report w e uid alert_type = Some m \<longrightarrow>
      (records (execute_query w (PixConcentration uid)) = [] \<longrightarrow>
         total_cash_in_pix m = 0 \<and> total_cash_out_pix m = 0 \<and>
         total_cash_in_pix_atypical_hours m = 0 \<and>
         total_cash_out_pix_atypical_hours m = 0 \<and>
         pix_cash_in m = [] \<and> pix_cash_out m = []) \<and>
      (records (execute_query w (MerchantReport uid)) = [] \<longrightarrow>
         subject_info m = []) \<and>
      (records (execute_query w (IssuingPaymentsData uid)) = [] \<longrightarrow>
         issuing_concentration m = []) \<and>
      (records (execute_query w (CardholderConcentration uid)) = [] \<longrightarrow>
         transaction_concentration m = []) \<and>
      (records (execute_query w (OffenseAnalysisData uid)) = [] \<longrightarrow>
         offense_history m = []) \<and>
      (records (execute_query w (OnlineStoreData uid)) = [] \<longrightarrow>
         products_online m = []) \<and>
      (records (execute_query w (PhonecastData uid)) = [] \<longrightarrow>
         contacts m = []) \<and>
      (records (execute_query w (UserDevice uid)) = [] \<longrightarrow>
         devices m = []) \<and>
      (records (execute_query w (LawsuitsData uid)) = [] \<longrightarrow>
         lawsuit_data m = []) \<and>
      (records (execute_query w (RiskTransactionsData uid)) = [] \<longrightarrow>
         denied_transactions m = []) \<and>
      (records (execute_query w (BusinessRelationshipsData uid)) = [] \<longrightarrow>
         business_data m = []) \<and>
      (records (execute_query w (PrisonTransactions uid)) = [] \<longrightarrow>
         prison_transactions m = []) \<and>
      (records (execute_query w (SanctionsHistory uid)) = [] \<longrightarrow>
         sanctions_history m = []) \<and>
      (records (execute_query w (RiskPixTransfersData uid)) = [] \<longrightarrow>
         denied_pix_transactions m = []) \<and>
      (records (execute_query w (BetsPixTransfers uid)) = [] \<longrightarrow>
         bets_pix_transfers m = [])"
    by (rule impI) (rule merchant_report_defaults)
qed

theorem report_defaults_without_data_witness:
  "records (execute_query empty_warehouse (PixConcentration 1)) = [] \<and>
   cardholder_report empty_warehouse sample_env 1 ''pix'' \<noteq> None \<and>
   merchant_report empty_warehouse sample_env 1 ''pix'' \<noteq> None \<and>
   total_cash_in_pix (the (cardholder_report empty_warehouse sample_env 1 ''pix'')) = 0 \<and>
   total_cash_out_pix (the (cardholder_report empty_warehouse sample_env 1 ''pix'')) = 0 \<and>
   total_cash_in_pix_atypical_hours (the (cardholder_report empty_warehouse sample_env 1 ''pix'')) = 0 \<and>
   total_cash_out_pix_atypical_hours (the (cardholder_report empty_warehouse sample_env 1 ''pix'')) = 0 \<and>
   pix_cash_in (the (cardholder_report empty_warehouse sample_env 1 ''pix'')) = [] \<and>
   pix_cash_out (the (cardholder_report empty_warehouse sample_env 1 ''pix'')) = [] \<and>
   subject_info (the (cardholder_report empty_warehouse sample_env 1 ''pix'')) = [] \<and>
   issuing_concentration (the (cardholder_report empty_warehouse sample_env 1 ''pix'')) = [] \<and>
   offense_history (the (cardholder_report empty_warehouse sample_env 1 ''pix'')) = [] \<and>
   contacts (the (cardholder_report empty_warehouse sample_env 1 ''pix'')) = [] \<and>
   devices (the (cardholder_report empty_warehouse sample_env 1 ''pix'')) = [] \<and>
   lawsuit_data (the (cardholder_report empty_warehouse sample_env 1 ''pix'')) = [] \<and>
   business_data (the (cardholder_report empty_warehouse sample_env 1 ''pix'')) = [] \<and>
   prison_transactions (the (cardholder_report empty_warehouse sample_env 1 ''pix'')) = [] \<and>
   sanctions_history (the (cardholder_report empty_warehouse sample_env 1 ''pix'')) = [] \<and>
   denied_pix_transactions (the (cardholder_report empty_warehouse sample_env 1 ''pix'')) = [] \<and>
   bets_pix_transfers (the (cardholder_report empty_warehouse sample_env 1 ''pix'')) = [] \<and>
   total_cash_in_pix (the (merchant_report empty_warehouse sample_env 1 ''pix'')) = 0 \<and>
   total_cash_out_pix (the (merchant_report empty_warehouse sample_env 1 ''pix'')) = 0 \<and>
   total_cash_in_pix_atypical_hours (the (merchant_report empty_warehouse sample_env 1 ''pix'')) = 0 \<and>
   total_cash_out_pix_atypical_hours (the (merchant_report empty_warehouse sample_env 1 ''pix'')) = 0 \<and>
   pix_cash_in (the (merchant_report empty_warehouse sample_env 1 ''pix'')) = [] \<and>
   pix_cash_out (the (merchant_report empty_warehouse sample_env 1 ''pix'')) = [] \<and>
   subject_info (the (merchant_report empty_warehouse sample_env 1 ''pix'')) = [] \<and>
   issuing_concentration (the (merchant_report empty_warehouse sample_env 1 ''pix'')) = [] \<and>
   transaction_concentration (the (merchant_report empty_warehouse sample_env 1 ''pix'')) = [] \<and>
   offense_history (the (merchant_report empty_warehouse sample_env 1 ''pix'')) = [] \<and>
   products_online (the (merchant_report empty_warehouse sample_env 1 ''pix'')) = [] \<and>
   contacts (the (merchant_report empty_warehouse sample_env 1 ''pix'')) = [] \<and>
   devices (the (merchant_report empty_warehouse sample_env 1 ''pix'')) = [] \<and>
   lawsuit_data (the (merchant_report empty_warehouse sample_env 1 ''pix'')) = [] \<and>
   denied_transactions (the (merchant_report empty_warehouse sample_env 1 ''pix'')) = [] \<and>
   business_data (the (merchant_report empty_warehouse sample_env 1 ''pix'')) = [] \<and>
   prison_transactions (the (merchant_report empty_warehouse sample_env 1 ''pix'')) = [] \<and>
   sanctions_history (the (merchant_report empty_warehouse sample_env 1 ''pix'')) = [] \<and>
   denied_pix_transactions (the (merchant_report empty_warehouse sample_env 1 ''pix'')) = [] \<and>
   bets_pix_transfers (the (merchant_report empty_warehouse sample_env 1 ''pix'')) = []"
  using report_defaults_without_data [of empty_warehouse 1 sample_env "''pix''"
      "the (cardholder_report empty_warehouse sample_env 1 ''pix'')"
      "the (merchant_report empty_warehouse sample_env 1 ''pix'')"]
  by (simp add: execute_query_def empty_warehouse_def)

end
